theory Spec2Isabelle
  imports Main
begin

section \<open>JavaScript values, thrown values and strings\<close>

text \<open>
  The GitLab driver of CML is a JavaScript class whose methods are \<open>async\<close>
  functions over dynamically typed values.  Values that reach the driver (call options,
  parsed JSON bodies) are modelled by \<open>js\<close>; numbers are restricted to integers, which
  is what the GitLab API uses for the ids the driver interpolates into endpoints.
\<close>

datatype js =
    Undefined
  | Null
  | Bool bool
  | Num int
  | Str string
  | Arr "js list"
  | Obj "(string \<times> js) list"

text \<open>
  What a \<open>throw\<close> or a rejected promise carries: an \<open>Error\<close> object with its message
  (the errors of node-fetch, fs and the other libraries are \<open>Error\<close> objects too), a
  \<open>TypeError\<close> raised by the engine, or a value that is no error object at all:
  \<open>repoBase\<close> throws whatever \<open>possibleBases[0]\<close> holds, which can be \<open>undefined\<close>
  (or, for an empty candidate path, a string).
\<close>

datatype thrown =
    Error string
  | TypeError string
  | ThrownString string
  | ThrownUndefined

definition sq :: string where
  "sq = [CHR 0x27]"

definition dq :: string where
  "dq = [CHR 0x22]"

text \<open>V8's message for a property read or a destructuring of \<open>undefined\<close> or \<open>null\<close>.\<close>

definition cannot_read :: "string \<Rightarrow> string \<Rightarrow> string" where
  "cannot_read what name =
     ''Cannot read properties of '' @ what @ '' (reading '' @ sq @ name @ sq @ '')''"

fun truthy :: "js \<Rightarrow> bool" where
  "truthy Undefined = False"
| "truthy Null = False"
| "truthy (Bool b) = b"
| "truthy (Num n) = (n \<noteq> 0)"
| "truthy (Str s) = (s \<noteq> [])"
| "truthy (Arr xs) = True"
| "truthy (Obj kvs) = True"

text \<open>
  \<open>v.name\<close> for the property names the driver reads (\<open>version\<close>, \<open>state\<close>, \<open>web_url\<close>,
  \<open>pipeline\<close>, \<open>id\<close>, \<open>status\<close>, \<open>token\<close>, ...): none of them is a built-in property
  of a boolean, number, string or array, so only objects can hold them; \<open>undefined\<close> and
  \<open>null\<close> raise.
\<close>

fun get_prop :: "js \<Rightarrow> string \<Rightarrow> thrown + js" where
  "get_prop Undefined name = Inl (TypeError (cannot_read ''undefined'' name))"
| "get_prop Null name = Inl (TypeError (cannot_read ''null'' name))"
| "get_prop (Obj kvs) name = (case map_of kvs name of None \<Rightarrow> Inr Undefined | Some v \<Rightarrow> Inr v)"
| "get_prop v name = Inr Undefined"

text \<open>
  \<open>err.message\<close> of a caught value: the message of an error object, \<open>undefined\<close> for a
  thrown string, a \<open>TypeError\<close> for a thrown \<open>undefined\<close>.
\<close>

fun message :: "thrown \<Rightarrow> thrown + js" where
  "message (Error m) = Inr (Str m)"
| "message (TypeError m) = Inr (Str m)"
| "message (ThrownString x) = Inr Undefined"
| "message ThrownUndefined = Inl (TypeError (cannot_read ''undefined'' ''message''))"

definition digit_char :: "nat \<Rightarrow> char" where
  "digit_char n = char_of (48 + n)"

function digits :: "nat \<Rightarrow> string" where
  "digits n = (if n < 10 then [digit_char n] else digits (n div 10) @ [digit_char (n mod 10)])"
  by pat_completeness auto
termination
  by (relation "measure id") auto

fun join :: "string \<Rightarrow> string list \<Rightarrow> string" where
  "join sep [] = []"
| "join sep [x] = x"
| "join sep (x # y # ys) = x @ sep @ join sep (y # ys)"

text \<open>String conversion as done by a template literal \<open>`${v}`\<close>.\<close>

fun to_string :: "js \<Rightarrow> string" where
  "to_string Undefined = ''undefined''"
| "to_string Null = ''null''"
| "to_string (Bool b) = (if b then ''true'' else ''false'')"
| "to_string (Num i) = (if i < 0 then ''-'' @ digits (nat (- i)) else digits (nat i))"
| "to_string (Str s) = s"
| "to_string (Arr xs) =
     join '','' (map (\<lambda>x. if x = Undefined \<or> x = Null then [] else to_string x) xs)"
| "to_string (Obj kvs) = ''[object Object]''"

text \<open>\<open>s.split(c)\<close> for a one-character separator.\<close>

fun split :: "char \<Rightarrow> string \<Rightarrow> string list" where
  "split c [] = [[]]"
| "split c (x # xs) =
     (if x = c then [] # split c xs
      else (case split c xs of [] \<Rightarrow> [[x]] | w # ws \<Rightarrow> (x # w) # ws))"

text \<open>\<open>s.replace(pat, '')\<close> with a string pattern: the first occurrence is removed.\<close>

fun replace_first :: "string \<Rightarrow> string \<Rightarrow> string" where
  "replace_first pat [] = []"
| "replace_first pat (x # xs) =
     (if take (length pat) (x # xs) = pat then drop (length pat) (x # xs)
      else x # replace_first pat xs)"

text \<open>\<open>s.substr(1)\<close>.\<close>

definition substr1 :: "string \<Rightarrow> string" where
  "substr1 s = drop 1 s"

text \<open>
  \<open>encodeURIComponent\<close> on a string held as UTF-8 bytes: every byte except the
  unreserved characters is percent-encoded with upper-case hexadecimal digits.
\<close>

definition unreserved :: "char \<Rightarrow> bool" where
  "unreserved c =
     (c \<in> set (''ABCDEFGHIJKLMNOPQRSTUVWXYZabcdefghijklmnopqrstuvwxyz0123456789-_.!~*()'' @ sq))"

definition hex_digit :: "nat \<Rightarrow> char" where
  "hex_digit n = ''0123456789ABCDEF'' ! (n mod 16)"

definition encodeURIComponent :: "string \<Rightarrow> string" where
  "encodeURIComponent s =
     concat (map (\<lambda>c. if unreserved c then [c]
                       else [CHR ''%'', hex_digit (of_char c div 16), hex_digit (of_char c)]) s)"

section \<open>The world outside the driver\<close>

text \<open>\<open>URLSearchParams\<close> bodies are ordered lists of name/value pairs.\<close>

type_synonym params = "(string \<times> string) list"

definition append :: "params \<Rightarrow> string \<Rightarrow> string \<Rightarrow> params" where
  "append b k v = b @ [(k, v)]"

text \<open>\<open>body.set(k, v)\<close>: overwrite the first pair named \<open>k\<close> and drop the others, or append.\<close>

fun set_first :: "params \<Rightarrow> string \<Rightarrow> string \<Rightarrow> params" where
  "set_first [] k v = []"
| "set_first ((k', v') # b) k v =
     (if k' = k then (k, v) # filter (\<lambda>p. fst p \<noteq> k) b else (k', v') # set_first b k v)"

definition set_param :: "params \<Rightarrow> string \<Rightarrow> string \<Rightarrow> params" where
  "set_param b k v = (if k \<in> fst ` set b then set_first b k v else append b k v)"

record http_request =
  req_method :: string
  req_url :: string
  req_token :: string
  req_body :: "params option"

text \<open>
  A node-fetch \<open>Response\<close>: status line, and what \<open>response.json()\<close> yields (the parsed
  body, or the message of the error it rejects with when the body is not JSON).
\<close>

record response =
  status :: nat
  statusText :: string
  json :: "string + js"

datatype fetch_result = Rejected string | Responded response

text \<open>The parts of a WHATWG \<open>URL\<close> object that the driver reads.\<close>

record URL =
  origin :: string
  pathname :: string
  protocol :: string
  host :: string

text \<open>Every effect on the outside world, in the order the driver starts them.\<close>

datatype event =
    Fetch http_request
  | PathExists string
  | Download string string
  | Chmod string string
  | Spawn string
  | Warn string

text \<open>
  The collaborators of the driver.  They are parameters of the model: node's \<open>URL\<close>
  parser (\<open>None\<close> when the constructor throws), the remote server, whose answer may depend
  on everything done so far (a rejected \<open>fetch\<close> carries the message of its error), the
  file system and child-process calls of \<open>startRunner\<close> (a failure carries the message of
  its error), and the environment variables read at module load.

  Modelled from the spec: \<open>gpuPresent\<close> of \<open>../utils\<close> is not among the sources; the spec
  describes it as the detection of a local GPU, which yields a flag.
\<close>

record env =
  parseURL :: "string \<Rightarrow> URL option"
  remote :: "event list \<Rightarrow> http_request \<Rightarrow> fetch_result"
  gpuPresent :: bool
  resolve_path :: "string \<Rightarrow> string \<Rightarrow> string"
  pathExists :: "event list \<Rightarrow> string \<Rightarrow> string + bool"
  download :: "event list \<Rightarrow> string \<Rightarrow> string \<Rightarrow> string option"
  chmod :: "event list \<Rightarrow> string \<Rightarrow> string \<Rightarrow> string option"
  spawn :: "event list \<Rightarrow> string \<Rightarrow> string + nat"
  platform :: string
  CI_PIPELINE_ID :: "string option"
  IN_DOCKER :: "string option"

text \<open>
  A \<open>Gitlab\<close> instance (\<open>token\<close>, \<open>repo\<close>, the memoised \<open>detectedBase\<close>) together with
  the trace of effects of the session.
\<close>

record gitlab =
  token :: string
  repo :: string
  detectedBase :: "string option"
  trace :: "event list"

type_synonym 'a action = "gitlab \<Rightarrow> (thrown + 'a) \<times> gitlab"

definition ret :: "'a \<Rightarrow> 'a action" where
  "ret x s = (Inr x, s)"

definition throw :: "thrown \<Rightarrow> 'a action" where
  "throw e s = (Inl e, s)"

text \<open>\<open>const x = await m; f x\<close>: a rejection of \<open>m\<close> leaves the function.\<close>

definition bind :: "'a action \<Rightarrow> ('a \<Rightarrow> 'b action) \<Rightarrow> 'b action" where
  "bind m f s = (case m s of (Inl e, s') \<Rightarrow> (Inl e, s') | (Inr x, s') \<Rightarrow> f x s')"

text \<open>\<open>try { m } catch (e) { h e }\<close>.\<close>

definition try_catch :: "'a action \<Rightarrow> (thrown \<Rightarrow> 'a action) \<Rightarrow> 'a action" where
  "try_catch m h s = (case m s of (Inl e, s') \<Rightarrow> h e s' | (Inr x, s') \<Rightarrow> (Inr x, s'))"

definition lift :: "thrown + 'a \<Rightarrow> 'a action" where
  "lift r s = (r, s)"

text \<open>The outcome of a library call: a failure is an \<open>Error\<close> with the library's message.\<close>

fun library :: "string + 'a \<Rightarrow> thrown + 'a" where
  "library (Inl m) = Inl (Error m)"
| "library (Inr x) = Inr x"

definition emit :: "event \<Rightarrow> unit action" where
  "emit e s = (Inr (), s\<lparr>trace := trace s @ [e]\<rparr>)"

section \<open>The request client\<close>

definition API_VER :: string where
  "API_VER = ''v4''"

text \<open>The options of \<open>request\<close>; the option \<open>method\<close> is the field \<open>http_method\<close>.\<close>

record req_opts =
  endpoint :: "string option"
  url :: "string option"
  http_method :: "string option"
  body :: "params option"
  raw :: bool

definition opts0 :: req_opts where
  "opts0 = \<lparr>endpoint = None, url = None, http_method = None, body = None, raw = False\<rparr>"

datatype reply = Raw response | Parsed js

text \<open>\<open>fetch(url, {method, headers, body, agent})\<close>: the call is traced, the remote answers.\<close>

definition fetch :: "env \<Rightarrow> http_request \<Rightarrow> response action" where
  "fetch E rq s =
     (case remote E (trace s) rq of
        Rejected m \<Rightarrow> (Inl (Error m), s\<lparr>trace := trace s @ [Fetch rq]\<rparr>)
      | Responded r \<Rightarrow> (Inr r, s\<lparr>trace := trace s @ [Fetch rq]\<rparr>))"

text \<open>The arguments \<open>fetch\<close> is called with; the option \<open>method\<close> defaults to \<open>'GET'\<close>.\<close>

definition fetch_args :: "gitlab \<Rightarrow> string \<Rightarrow> req_opts \<Rightarrow> http_request" where
  "fetch_args s a opts =
     \<lparr>req_method = (case http_method opts of None \<Rightarrow> ''GET'' | Some m \<Rightarrow> m),
      req_url = a, req_token = token s, req_body = body opts\<rparr>"

text \<open>
  \<open>request\<close> from the check \<open>if (!url)\<close> on (lines 480 to 492), for an already
  determined \<open>url\<close>.  \<open>repoBase\<close> calls \<open>request\<close> with a \<open>url\<close> and no \<open>endpoint\<close>, which
  is exactly this part.
\<close>

definition request_url :: "env \<Rightarrow> string option \<Rightarrow> req_opts \<Rightarrow> reply action" where
  "request_url E u opts s =
     (case u of
        None \<Rightarrow> throw (Error ''Gitlab API endpoint not found'') s
      | Some a \<Rightarrow>
          if a = [] then throw (Error ''Gitlab API endpoint not found'') s
          else bind (fetch E (fetch_args s a opts))
                 (\<lambda>r. if status r > 300 then throw (Error (statusText r))
                      else if raw opts then ret (Raw r)
                      else bind (lift (library (json r))) (\<lambda>j. ret (Parsed j))) s)"

section \<open>Base URL resolution\<close>

text \<open>What one callback of the \<open>map\<close> in \<open>repoBase\<close> resolves to.\<close>

datatype probe_result = Base string | Failed thrown | NoVersion

definition segments :: "string \<Rightarrow> string list" where
  "segments p = filter (\<lambda>w. w \<noteq> []) (split CHR ''/'' p)"

text \<open>\<open>[origin, ...array.slice(0, index)].join('/')\<close> for every index of \<open>array\<close>.\<close>

definition candidates :: "string \<Rightarrow> string list \<Rightarrow> string list" where
  "candidates org array = map (\<lambda>index. join ''/'' (org # take index array)) [0..<length array]"

definition version_url :: "string \<Rightarrow> string" where
  "version_url path = path @ ''/api/'' @ API_VER @ ''/version''"

text \<open>
  The callback: \<open>try { if ((await this.request({url})).version) return path }
  catch (error) { return error }\<close>; falling off the end returns \<open>undefined\<close>.
\<close>

definition probe :: "env \<Rightarrow> string \<Rightarrow> gitlab \<Rightarrow> probe_result \<times> gitlab" where
  "probe E path s =
     (case request_url E (Some (version_url path)) (opts0\<lparr>url := Some (version_url path)\<rparr>) s of
        (Inl e, s') \<Rightarrow> (Failed e, s')
      | (Inr (Raw r), s') \<Rightarrow> (NoVersion, s')
      | (Inr (Parsed j), s') \<Rightarrow>
          (case get_prop j ''version'' of
             Inl e \<Rightarrow> (Failed e, s')
           | Inr v \<Rightarrow> (if truthy v then Base path else NoVersion, s')))"

text \<open>
  \<open>Promise.all(array.map(async ...))\<close>: every callback runs up to its \<open>fetch\<close> when it
  is created, so the probes are issued in index order; the results are collected in index
  order whatever the order of the answers.
\<close>

fun probes :: "env \<Rightarrow> string list \<Rightarrow> gitlab \<Rightarrow> probe_result list \<times> gitlab" where
  "probes E [] s = ([], s)"
| "probes E (p # ps) s =
     (case probe E p s of (r, s') \<Rightarrow> (case probes E ps s' of (rs, s'') \<Rightarrow> (r # rs, s'')))"

fun is_base :: "probe_result \<Rightarrow> bool" where
  "is_base (Base p) = True"
| "is_base r = False"

text \<open>A string is falsy exactly when it is empty; an unset field is \<open>undefined\<close>.\<close>

fun truthy_str :: "string option \<Rightarrow> bool" where
  "truthy_str None = False"
| "truthy_str (Some a) = (a \<noteq> [])"

text \<open>\<open>possibleBases.find((base) => typeof base === 'string')\<close>.\<close>

definition find_string :: "probe_result list \<Rightarrow> string option" where
  "find_string rs = (case find is_base rs of Some (Base b) \<Rightarrow> Some b | _ \<Rightarrow> None)"

text \<open>\<open>throw possibleBases[0]\<close>: the first callback's value is thrown as it is.\<close>

fun thrown_of :: "probe_result \<Rightarrow> thrown" where
  "thrown_of (Base x) = ThrownString x"
| "thrown_of (Failed e) = e"
| "thrown_of NoVersion = ThrownUndefined"

text \<open>The request of the probe of one candidate.\<close>

definition probe_args :: "gitlab \<Rightarrow> string \<Rightarrow> http_request" where
  "probe_args s path = fetch_args s (version_url path) (opts0\<lparr>url := Some (version_url path)\<rparr>)"

text \<open>Whether the probe of a candidate, issued from session \<open>s\<close>, yields the candidate.\<close>

definition probe_ok :: "env \<Rightarrow> gitlab \<Rightarrow> string \<Rightarrow> bool" where
  "probe_ok E s path = is_base (fst (probe E path s))"

text \<open>
  The resolution in the words of the specification, for comparison with \<open>repoBase\<close>: a
  candidate \<open>origin + joined-prefix\<close> for every prefix of the segment list, tried from
  the longest to the shortest, the first success winning.
\<close>

definition prefixes_longest_first :: "'a list \<Rightarrow> 'a list list" where
  "prefixes_longest_first xs = rev (map (\<lambda>n. take n xs) [0..<Suc (length xs)])"

definition resolveBase_spec :: "(string \<Rightarrow> bool) \<Rightarrow> string \<Rightarrow> string list \<Rightarrow> string option" where
  "resolveBase_spec ok org segs =
     find ok (map (\<lambda>pre. join ''/'' (org # pre)) (prefixes_longest_first segs))"

text \<open>\<open>repoBase\<close> after the cache check (lines 40 to 66).\<close>

definition detect :: "env \<Rightarrow> string action" where
  "detect E s =
     (case parseURL E (repo s) of
        None \<Rightarrow> (Inl (TypeError ''Invalid URL''), s)
      | Some u \<Rightarrow>
          (case probes E (candidates (origin u) (segments (pathname u))) s of
             (possibleBases, s1) \<Rightarrow>
               (let s2 = s1\<lparr>detectedBase := find_string possibleBases\<rparr> in
                case detectedBase s2 of
                  Some b \<Rightarrow>
                    if b \<noteq> [] then (Inr b, s2)
                    else (case possibleBases of
                            [] \<Rightarrow> (Inl (Error ''Invalid repository address''), s2)
                          | r # rest \<Rightarrow> (Inl (thrown_of r), s2))
                | None \<Rightarrow>
                    (case possibleBases of
                       [] \<Rightarrow> (Inl (Error ''Invalid repository address''), s2)
                     | r # rest \<Rightarrow> (Inl (thrown_of r), s2)))))"

definition repoBase :: "env \<Rightarrow> string action" where
  "repoBase E s =
     (case detectedBase s of
        Some b \<Rightarrow> if b \<noteq> [] then (Inr b, s) else detect E s
      | None \<Rightarrow> detect E s)"

text \<open>
  The first part of \<open>request\<close> (lines 475 to 479): the \<open>url\<close> option, replaced by the
  \<open>endpoint\<close> under the detected base when an \<open>endpoint\<close> is given.
\<close>

definition request_target :: "env \<Rightarrow> req_opts \<Rightarrow> string option action" where
  "request_target E opts =
     (case endpoint opts of
        None \<Rightarrow> ret (url opts)
      | Some e \<Rightarrow>
          if e \<noteq> [] then bind (repoBase E) (\<lambda>b. ret (Some (b @ ''/api/'' @ API_VER @ e)))
          else ret (url opts))"

definition request :: "env \<Rightarrow> req_opts \<Rightarrow> reply action" where
  "request E opts = bind (request_target E opts) (\<lambda>u. request_url E u opts)"

text \<open>
  The arguments of the \<open>fetch\<close> that a request with an \<open>endpoint\<close> issues once the base
  \<open>b\<close> is known.
\<close>

definition api_call :: "gitlab \<Rightarrow> string \<Rightarrow> req_opts \<Rightarrow> http_request" where
  "api_call s b opts =
     fetch_args s (b @ ''/api/'' @ API_VER @ (case endpoint opts of Some e \<Rightarrow> e | None \<Rightarrow> [])) opts"

text \<open>
  The value a caller works on.  Callers that read the answer never set \<open>raw\<close>; a
  \<open>Response\<close> envelope has none of the JSON fields they read.
\<close>

fun payload :: "reply \<Rightarrow> js" where
  "payload (Parsed j) = j"
| "payload (Raw r) = Obj []"

definition request_json :: "env \<Rightarrow> req_opts \<Rightarrow> js action" where
  "request_json E opts = bind (request E opts) (\<lambda>r. ret (payload r))"

section \<open>Driver operations\<close>

definition projectPath :: "env \<Rightarrow> string action" where
  "projectPath E =
     bind (repoBase E)
       (\<lambda>repoBase s. ret (encodeURIComponent (substr1 (replace_first repoBase (repo s)))) s)"

definition comment_opts :: "string \<Rightarrow> js \<Rightarrow> js \<Rightarrow> req_opts" where
  "comment_opts pp commitSha report =
     opts0\<lparr>endpoint := Some (''/projects/'' @ pp @ ''/repository/commits/''
                                @ to_string commitSha @ ''/comments''),
           http_method := Some ''POST'',
           body := Some (append [] ''note'' (to_string report))\<rparr>"

definition commentCreate :: "env \<Rightarrow> js \<Rightarrow> js \<Rightarrow> string action" where
  "commentCreate E commitSha report =
     bind (projectPath E)
       (\<lambda>projectPath.
          bind (request E (comment_opts projectPath commitSha report))
            (\<lambda>_ s. ret (repo s @ ''/-/commit/'' @ to_string commitSha) s))"

text \<open>\<open>xs.filter(f)\<close> and \<open>xs.map(f)\<close> with callbacks that may throw, on a value \<open>xs\<close>.\<close>

fun map_throw :: "('a \<Rightarrow> thrown + 'b) \<Rightarrow> 'a list \<Rightarrow> thrown + 'b list" where
  "map_throw f [] = Inr []"
| "map_throw f (x # xs) =
     (case f x of
        Inl e \<Rightarrow> Inl e
      | Inr y \<Rightarrow> (case map_throw f xs of Inl e \<Rightarrow> Inl e | Inr ys \<Rightarrow> Inr (y # ys)))"

fun filter_throw :: "('a \<Rightarrow> thrown + bool) \<Rightarrow> 'a list \<Rightarrow> thrown + 'a list" where
  "filter_throw f [] = Inr []"
| "filter_throw f (x # xs) =
     (case f x of
        Inl e \<Rightarrow> Inl e
      | Inr b \<Rightarrow> (case filter_throw f xs of
                    Inl e \<Rightarrow> Inl e
                  | Inr ys \<Rightarrow> Inr (if b then x # ys else ys)))"

fun elements :: "string \<Rightarrow> js \<Rightarrow> thrown + js list" where
  "elements name (Arr xs) = Inr xs"
| "elements name Undefined = Inl (TypeError (cannot_read ''undefined'' name))"
| "elements name Null = Inl (TypeError (cannot_read ''null'' name))"
| "elements name v = Inl (TypeError (''prs.'' @ name @ '' is not a function''))"

text \<open>
  The callback shared by \<open>commitPrs\<close> and \<open>prs\<close>:
  \<open>const { web_url: url, source_branch: source, target_branch: target } = pr\<close>.
\<close>

definition pr_summary :: "js \<Rightarrow> thrown + js" where
  "pr_summary pr =
     (case get_prop pr ''web_url'' of
        Inl e \<Rightarrow> Inl e
      | Inr u \<Rightarrow>
          (case get_prop pr ''source_branch'' of
             Inl e \<Rightarrow> Inl e
           | Inr src \<Rightarrow>
               (case get_prop pr ''target_branch'' of
                  Inl e \<Rightarrow> Inl e
                | Inr tgt \<Rightarrow> Inr (Obj [(''url'', u), (''source'', src), (''target'', tgt)]))))"

definition is_opened :: "js \<Rightarrow> thrown + bool" where
  "is_opened pr = (case get_prop pr ''state'' of Inl e \<Rightarrow> Inl e | Inr v \<Rightarrow> Inr (v = Str ''opened''))"

definition commitPrs :: "env \<Rightarrow> js \<Rightarrow> js list action" where
  "commitPrs E commitSha =
     bind (projectPath E)
       (\<lambda>projectPath.
          bind (request_json E
                 (opts0\<lparr>endpoint := Some (''/projects/'' @ projectPath @ ''/repository/commits/''
                                            @ to_string commitSha @ ''/merge_requests''),
                        http_method := Some ''GET''\<rparr>))
            (\<lambda>prs. bind (lift (elements ''filter'' prs))
                     (\<lambda>xs. bind (lift (filter_throw is_opened xs))
                            (\<lambda>ys. lift (map_throw pr_summary ys)))))"

text \<open>\<open>prs\<close>; the option \<open>state\<close> defaults to \<open>'opened'\<close> when it is \<open>undefined\<close>.\<close>

definition prs_opts :: "string \<Rightarrow> js \<Rightarrow> req_opts" where
  "prs_opts pp state =
     opts0\<lparr>endpoint := Some (''/projects/'' @ pp @ ''/merge_requests?state=''
                                @ to_string (if state = Undefined then Str ''opened'' else state)),
           http_method := Some ''GET''\<rparr>"

definition prs :: "env \<Rightarrow> js \<Rightarrow> js list action" where
  "prs E state =
     bind (projectPath E)
       (\<lambda>projectPath.
          bind (request_json E (prs_opts projectPath state))
            (\<lambda>prs. bind (lift (elements ''map'' prs))
                     (\<lambda>xs. lift (map_throw pr_summary xs))))"

section \<open>Merge automation\<close>

text \<open>
  \<open>backOff\<close> of the exponential-backoff package with its default options: the request
  is attempted until it succeeds, at most \<open>numOfAttempts\<close> times, and the error of the
  last attempt is rethrown.  The delays between attempts are not modelled.
\<close>

definition numOfAttempts :: nat where
  "numOfAttempts = 10"

fun backOff_loop :: "nat \<Rightarrow> 'a action \<Rightarrow> 'a action" where
  "backOff_loop 0 rq = throw (Error ''Something went wrong.'')"
| "backOff_loop (Suc n) rq =
     try_catch rq (\<lambda>e. if n = 0 then throw e else backOff_loop n rq)"

definition backOff :: "'a action \<Rightarrow> 'a action" where
  "backOff rq = backOff_loop numOfAttempts rq"

text \<open>
  A call that is started and not awaited: its effects happen, its outcome (a value or a
  rejection) is dropped and the caller goes on.  The request of the dropped call is issued
  once the caller has yielded; the trace records it with the call that started it.  What
  the process does with the unhandled rejection is outside the model.
\<close>

definition fire_and_forget :: "'a action \<Rightarrow> unit action" where
  "fire_and_forget m s = (Inr (), snd (m s))"

definition merge_endpoint :: "string \<Rightarrow> js \<Rightarrow> string" where
  "merge_endpoint pp pullRequestId =
     ''/projects/'' @ pp @ ''/merge_requests/'' @ to_string pullRequestId @ ''/merge''"

text \<open>The body built before the \<open>try\<close> (lines 307 to 310).\<close>

definition merge_body :: "js \<Rightarrow> js \<Rightarrow> params" where
  "merge_body mergeMode mergeMessage =
     (let b1 = set_param [] ''merge_when_pipeline_succeeds'' ''true'';
          b2 = set_param b1 ''squash'' (if mergeMode = Str ''squash'' then ''true'' else ''false'')
      in if truthy mergeMessage
         then set_param b2 (to_string mergeMode @ ''_commit_message'') (to_string mergeMessage)
         else b2)"

definition merge_opts :: "string \<Rightarrow> params \<Rightarrow> req_opts" where
  "merge_opts ep b = opts0\<lparr>endpoint := Some ep, http_method := Some ''PUT'', body := Some b\<rparr>"

definition prAutoMerge :: "env \<Rightarrow> js \<Rightarrow> js \<Rightarrow> js \<Rightarrow> unit action" where
  "prAutoMerge E pullRequestId mergeMode mergeMessage =
     (if mergeMode = Str ''rebase''
      then throw (Error ''Rebase auto-merge mode not implemented for GitLab'')
      else bind (projectPath E)
        (\<lambda>projectPath.
           let ep = merge_endpoint projectPath pullRequestId;
               b = merge_body mergeMode mergeMessage
           in try_catch
                (bind (backOff (request E (merge_opts ep b))) (\<lambda>_. ret ()))
                (\<lambda>err. bind (lift (message err))
                   (\<lambda>msg. bind (emit (Warn (''Failed to enable auto-merge: '' @ to_string msg
                                              @ ''. Trying to merge immediately...'')))
                      (\<lambda>_. fire_and_forget
                             (request E
                                (merge_opts ep
                                   (set_param b ''merge_when_pipeline_succeeds'' ''false''))))))))"

section \<open>Pipelines\<close>

text \<open>
  \<open>pipelineRerun({ id = CI_PIPELINE_ID, jobId } = {})\<close>: the default applies when \<open>id\<close>
  is \<open>undefined\<close>.
\<close>

definition default_id :: "env \<Rightarrow> js \<Rightarrow> js" where
  "default_id E i =
     (if i = Undefined then (case CI_PIPELINE_ID E of None \<Rightarrow> Undefined | Some v \<Rightarrow> Str v)
      else i)"

definition job_opts :: "string \<Rightarrow> js \<Rightarrow> req_opts" where
  "job_opts pp jobId =
     opts0\<lparr>endpoint := Some (''/projects/'' @ pp @ ''/jobs/'' @ to_string jobId)\<rparr>"

definition pipeline_opts :: "string \<Rightarrow> js \<Rightarrow> req_opts" where
  "pipeline_opts pp i =
     opts0\<lparr>endpoint := Some (''/projects/'' @ pp @ ''/pipelines/'' @ to_string i),
           http_method := Some ''GET''\<rparr>"

definition cancel_opts :: "string \<Rightarrow> js \<Rightarrow> req_opts" where
  "cancel_opts pp i =
     opts0\<lparr>endpoint := Some (''/projects/'' @ pp @ ''/pipelines/'' @ to_string i
                                @ ''/cancel''),
           http_method := Some ''POST''\<rparr>"

definition retry_opts :: "string \<Rightarrow> js \<Rightarrow> req_opts" where
  "retry_opts pp i =
     opts0\<lparr>endpoint := Some (''/projects/'' @ pp @ ''/pipelines/'' @ to_string i
                                @ ''/retry''),
           http_method := Some ''POST''\<rparr>"

definition pipelineRerun :: "env \<Rightarrow> js \<Rightarrow> js \<Rightarrow> unit action" where
  "pipelineRerun E i jobId =
     bind (projectPath E)
       (\<lambda>projectPath.
          bind (if \<not> truthy (default_id E i) \<and> truthy jobId
                then bind (request_json E (job_opts projectPath jobId))
                       (\<lambda>job. bind (lift (get_prop job ''pipeline''))
                                (\<lambda>pipeline. lift (get_prop pipeline ''id'')))
                else ret (default_id E i))
            (\<lambda>id'.
               bind (request_json E (pipeline_opts projectPath id'))
                 (\<lambda>pipeline. bind (lift (get_prop pipeline ''status''))
                    (\<lambda>status'.
                       bind (if status' = Str ''running''
                             then bind (request E (cancel_opts projectPath id')) (\<lambda>_. ret ())
                             else ret ())
                         (\<lambda>_. bind (request E (retry_opts projectPath id')) (\<lambda>_. ret ()))))))"

text \<open>
  \<open>pipelineRerun\<close> from the fetch of the pipeline on (lines 411 to 426), for a pipeline
  id that is determined.
\<close>

definition rerun_from :: "env \<Rightarrow> string \<Rightarrow> js \<Rightarrow> unit action" where
  "rerun_from E pp id' =
     bind (request_json E (pipeline_opts pp id'))
       (\<lambda>pipeline. bind (lift (get_prop pipeline ''status''))
          (\<lambda>status'.
             bind (if status' = Str ''running''
                   then bind (request E (cancel_opts pp id')) (\<lambda>_. ret ())
                   else ret ())
               (\<lambda>_. bind (request E (retry_opts pp id')) (\<lambda>_. ret ()))))"

section \<open>Runner lifecycle\<close>

definition runnerToken :: "env \<Rightarrow> js action" where
  "runnerToken E =
     bind (projectPath E)
       (\<lambda>projectPath.
          bind (request_json E (opts0\<lparr>endpoint := Some (''/projects/'' @ projectPath)\<rparr>))
            (\<lambda>project. lift (get_prop project ''runners_token'')))"

definition registerRunner :: "env \<Rightarrow> js \<Rightarrow> js \<Rightarrow> js action" where
  "registerRunner E tags name =
     bind (runnerToken E)
       (\<lambda>token'.
          request_json E
            (opts0\<lparr>endpoint := Some ''/runners'',
                   http_method := Some ''POST'',
                   body := Some (append (append (append (append (append (append []
                             ''description'' (to_string name))
                             ''tag_list'' (to_string tags))
                             ''token'' (to_string token'))
                             ''locked'' ''true'')
                             ''run_untagged'' ''true'')
                             ''access_level'' ''not_protected'')\<rparr>))"

record runner_opts =
  workdir :: string
  idleTimeout :: js
  single :: js
  labels :: js
  name :: js
  dockerVolumes :: "js list"

definition runner_url :: "string \<Rightarrow> string" where
  "runner_url arch =
     ''https://gitlab-runner-downloads.s3.amazonaws.com/latest/binaries/gitlab-runner-''
     @ arch @ ''-amd64''"

definition forbidden_hint :: string where
  "forbidden_hint =
     '', check the permissions (scopes) of your GitLab token.'' @ [CHR 0x0A]
     @ ''See https://cml.dev/doc/self-hosted-runners?tab=GitLab#personal-access-token''"

text \<open>
  The launch command.  Inside the template literal a backslash before the line break
  joins the lines, so every continuation line contributes its indentation of eight spaces.
\<close>

definition pad :: string where
  "pad = replicate 8 CHR '' ''"

definition command :: "env \<Rightarrow> runner_opts \<Rightarrow> string \<Rightarrow> URL \<Rightarrow> js \<Rightarrow> string" where
  "command E opts bin u token' =
     bin @ '' --log-format='' @ dq @ ''json'' @ dq @ '' run-single ''
     @ pad @ ''--builds-dir '' @ dq @ workdir opts @ dq @ '' ''
     @ pad @ ''--cache-dir '' @ dq @ workdir opts @ dq @ '' ''
     @ pad @ ''--url '' @ dq @ protocol u @ ''//'' @ host u @ dq @ '' ''
     @ pad @ ''--name '' @ dq @ to_string (name opts) @ dq @ '' ''
     @ pad @ ''--token '' @ dq @ to_string token' @ dq @ '' ''
     @ pad @ ''--wait-timeout '' @ to_string (idleTimeout opts) @ '' ''
     @ pad @ ''--executor '' @ dq @ (if truthy_str (IN_DOCKER E) then ''shell'' else ''docker'')
           @ dq @ '' ''
     @ pad @ ''--docker-image '' @ dq @ ''iterativeai/cml:''
           @ (if gpuPresent E then ''latest-gpu'' else ''latest'') @ dq @ '' ''
     @ pad @ (if gpuPresent E then ''--docker-runtime nvidia'' else []) @ '' ''
     @ pad @ concat (map (\<lambda>vol. ''--docker-volumes '' @ to_string vol @ '' '') (dockerVolumes opts))
           @ '' ''
     @ pad @ (if truthy (single opts) then ''--max-builds 1'' else [])"

text \<open>The file-system and process calls, each traced when it is started.\<close>

definition fse_pathExists :: "env \<Rightarrow> string \<Rightarrow> bool action" where
  "fse_pathExists E p s =
     (library (pathExists E (trace s) p), s\<lparr>trace := trace s @ [PathExists p]\<rparr>)"

definition utils_download :: "env \<Rightarrow> string \<Rightarrow> string \<Rightarrow> unit action" where
  "utils_download E u p s =
     (case download E (trace s) u p of
        Some m \<Rightarrow> (Inl (Error m), s\<lparr>trace := trace s @ [Download u p]\<rparr>)
      | None \<Rightarrow> (Inr (), s\<lparr>trace := trace s @ [Download u p]\<rparr>))"

definition fs_chmod :: "env \<Rightarrow> string \<Rightarrow> string \<Rightarrow> unit action" where
  "fs_chmod E p m s =
     (case chmod E (trace s) p m of
        Some m' \<Rightarrow> (Inl (Error m'), s\<lparr>trace := trace s @ [Chmod p m]\<rparr>)
      | None \<Rightarrow> (Inr (), s\<lparr>trace := trace s @ [Chmod p m]\<rparr>))"

definition child_spawn :: "env \<Rightarrow> string \<Rightarrow> nat action" where
  "child_spawn E c s = (library (spawn E (trace s) c), s\<lparr>trace := trace s @ [Spawn c]\<rparr>)"

text \<open>The \<open>try\<close> block of \<open>startRunner\<close> (lines 186 to 214).\<close>

definition prepare :: "env \<Rightarrow> runner_opts \<Rightarrow> nat action" where
  "prepare E opts =
     (let bin = resolve_path E (workdir opts) ''gitlab-runner'' in
      bind (fse_pathExists E bin)
        (\<lambda>present.
           bind (if \<not> present
                 then bind (utils_download E
                              (runner_url (if platform E = ''darwin'' then ''darwin'' else ''linux''))
                              bin)
                        (\<lambda>_. fs_chmod E bin ''777'')
                 else ret ())
             (\<lambda>_ s.
                case parseURL E (repo s) of
                  None \<Rightarrow> throw (TypeError ''Invalid URL'') s
                | Some u \<Rightarrow>
                    bind (registerRunner E (labels opts) (name opts))
                      (\<lambda>runner. bind (lift (get_prop runner ''token''))
                         (\<lambda>token'. child_spawn E (command E opts bin u token'))) s)))"

text \<open>
  \<open>startRunner\<close>.  \<open>gpuPresent\<close> is awaited before the \<open>try\<close>; the \<open>catch\<close> block
  reads \<open>err.message\<close> twice and throws a new \<open>Error\<close>.
\<close>

definition startRunner :: "env \<Rightarrow> runner_opts \<Rightarrow> nat action" where
  "startRunner E opts =
     try_catch (prepare E opts)
       (\<lambda>err. bind (lift (message err))
          (\<lambda>msg. throw (Error (''Failed preparing Gitlab runner: ''
                                @ to_string (if msg = Str ''Forbidden''
                                             then Str (''Forbidden'' @ forbidden_hint)
                                             else msg)))))"

section \<open>The repository reference is immutable\<close>

text \<open>
  No operation of the driver assigns \<open>token\<close> or \<open>repo\<close> after the constructor; an
  operation is \<open>steady\<close> when every run of it leaves both as they were.
\<close>

definition evolves :: "gitlab \<Rightarrow> gitlab \<Rightarrow> bool" where
  "evolves s s' \<longleftrightarrow> token s' = token s \<and> repo s' = repo s"

definition steady :: "'a action \<Rightarrow> bool" where
  "steady m \<longleftrightarrow> (\<forall>s. evolves s (snd (m s)))"

section \<open>Operations that only talk to the remote\<close>

text \<open>An operation \<open>fetches\<close> when every run of it only appends \<open>Fetch\<close> events.\<close>

fun is_fetch :: "event \<Rightarrow> bool" where
  "is_fetch (Fetch rq) = True"
| "is_fetch ev = False"

definition fetches :: "'a action \<Rightarrow> bool" where
  "fetches m \<longleftrightarrow> (\<forall>s. \<exists>evs. trace (snd (m s)) = trace s @ evs \<and> list_all is_fetch evs)"

section \<open>Example sessions\<close>

text \<open>
  Concrete collaborators, used to run the model: a repository \<open>https://h.io/g/p\<close>, a
  remote given by a table from HTTP method and URL to its answer (anything else is a 404), a
  runner binary that is already present.
\<close>

definition parse0 :: "string \<Rightarrow> URL option" where
  "parse0 r =
     (if r = ''https://h.io/g/p''
      then Some \<lparr>origin = ''https://h.io'', pathname = ''/g/p'', protocol = ''https:'',
                 host = ''h.io''\<rparr>
      else if r = ''https://h.io''
      then Some \<lparr>origin = ''https://h.io'', pathname = ''/'', protocol = ''https:'',
                 host = ''h.io''\<rparr>
      else None)"

definition reply_ok :: "js \<Rightarrow> response" where
  "reply_ok j = \<lparr>status = 200, statusText = ''OK'', json = Inr j\<rparr>"

definition not_found :: response where
  "not_found =
     \<lparr>status = 404, statusText = ''Not Found'',
      json = Inr (Obj [(''message'', Str ''404 Not Found'')])\<rparr>"

definition table_remote ::
  "((string \<times> string) \<times> response) list \<Rightarrow> event list \<Rightarrow> http_request \<Rightarrow> fetch_result" where
  "table_remote tab tr rq =
     (case map_of tab (req_method rq, req_url rq) of
        Some r \<Rightarrow> Responded r
      | None \<Rightarrow> Responded not_found)"

definition world :: "(event list \<Rightarrow> http_request \<Rightarrow> fetch_result) \<Rightarrow> env" where
  "world rem =
     \<lparr>parseURL = parse0, remote = rem, gpuPresent = False,
      resolve_path = (\<lambda>d f. d @ ''/'' @ f),
      pathExists = (\<lambda>tr p. Inr True), download = (\<lambda>tr u p. None),
      chmod = (\<lambda>tr p m. None), spawn = (\<lambda>tr c. Inr 4242), platform = ''linux'',
      CI_PIPELINE_ID = None, IN_DOCKER = None\<rparr>"

definition fresh :: gitlab where
  "fresh = \<lparr>token = ''glpat'', repo = ''https://h.io/g/p'', detectedBase = None, trace = []\<rparr>"

definition version_ok :: response where
  "version_ok = reply_ok (Obj [(''version'', Str ''15.0'')])"

text \<open>A GitLab instance mounted at the origin.\<close>

definition at_origin :: env where
  "at_origin = world (table_remote [((''GET'', ''https://h.io/api/v4/version''), version_ok)])"

text \<open>The same instance, answering the creation of a comment on commit \<open>abc123\<close>.\<close>

definition commenting :: env where
  "commenting =
     world (table_remote
       [((''GET'', ''https://h.io/api/v4/version''), version_ok),
        ((''POST'', ''https://h.io/api/v4/projects/g%2Fp/repository/commits/abc123/comments''),
         \<lparr>status = 201, statusText = ''Created'', json = Inr (Obj [(''note'', Str ''hello'')])\<rparr>)])"

text \<open>A session whose base is already detected, and one whose repository has no path.\<close>

definition cached :: gitlab where
  "cached = fresh\<lparr>detectedBase := Some ''https://h.io''\<rparr>"

definition bare :: gitlab where
  "bare = fresh\<lparr>repo := ''https://h.io''\<rparr>"

text \<open>
  A remote that answers the deletion of runner 7 with an empty 204, one that answers
  with a page that is not JSON, and one that answers 404 to everything.
\<close>

definition no_content :: response where
  "no_content =
     \<lparr>status = 204, statusText = ''No Content'', json = Inl ''Unexpected end of JSON input''\<rparr>"

definition html_page :: response where
  "html_page =
     \<lparr>status = 200, statusText = ''OK'', json = Inl ''Unexpected token < in JSON at position 0''\<rparr>"

definition deleting :: env where
  "deleting = world (table_remote [((''DELETE'', ''https://h.io/api/v4/runners/7''), no_content)])"

definition serving_html :: env where
  "serving_html = world (table_remote [((''GET'', ''https://h.io/api/v4/runners/7''), html_page)])"

definition nowhere :: env where
  "nowhere = world (table_remote [])"

text \<open>An instance whose API answers both at the origin and under \<open>/g\<close>.\<close>

definition mirrored :: env where
  "mirrored =
     world (table_remote
       [((''GET'', ''https://h.io/api/v4/version''), version_ok),
        ((''GET'', ''https://h.io/g/api/v4/version''), version_ok)])"

text \<open>
  An instance whose list of merge requests, asked for \<open>state=opened\<close>, holds an open
  and a merged entry.
\<close>

definition mr_open :: js where
  "mr_open = Obj [(''iid'', Num 1), (''state'', Str ''opened''),
                  (''web_url'', Str ''https://h.io/g/p/-/merge_requests/1''),
                  (''source_branch'', Str ''feature''), (''target_branch'', Str ''main'')]"

definition mr_merged :: js where
  "mr_merged = Obj [(''iid'', Num 2), (''state'', Str ''merged''),
                    (''web_url'', Str ''https://h.io/g/p/-/merge_requests/2''),
                    (''source_branch'', Str ''hotfix''), (''target_branch'', Str ''main'')]"

definition listing :: env where
  "listing =
     world (table_remote
       [((''GET'', ''https://h.io/api/v4/version''), version_ok),
        ((''GET'', ''https://h.io/api/v4/projects/g%2Fp/merge_requests?state=opened''),
         reply_ok (Arr [mr_open, mr_merged]))])"

text \<open>An instance that refuses every merge of merge request 12.\<close>

definition refusing_merge :: env where
  "refusing_merge =
     world (table_remote
       [((''GET'', ''https://h.io/api/v4/version''), version_ok),
        ((''PUT'', ''https://h.io/api/v4/projects/g%2Fp/merge_requests/12/merge''),
         \<lparr>status = 405, statusText = ''Method Not Allowed'',
          json = Inr (Obj [(''message'', Str ''405 Method Not Allowed'')])\<rparr>)])"

text \<open>
  Instances for \<open>pipelineRerun\<close>: job 5 belongs to the running pipeline 9, job 6 to the
  failed pipeline 77, job 7 to a pipeline 11 that the remote does not know, and job 8 is
  itself unknown.  The first instance lets pipeline 9 be cancelled; the second is the
  same seen from a CI job of pipeline 77 (\<open>CI_PIPELINE_ID\<close> is set); the third answers
  403 to the cancellation.
\<close>

definition pipeline_table :: "((string \<times> string) \<times> response) list" where
  "pipeline_table =
     [((''GET'', ''https://h.io/api/v4/version''), version_ok),
      ((''GET'', ''https://h.io/api/v4/projects/g%2Fp/jobs/5''),
       reply_ok (Obj [(''id'', Num 5), (''pipeline'', Obj [(''id'', Num 9)])])),
      ((''GET'', ''https://h.io/api/v4/projects/g%2Fp/jobs/6''),
       reply_ok (Obj [(''id'', Num 6), (''pipeline'', Obj [(''id'', Num 77)])])),
      ((''GET'', ''https://h.io/api/v4/projects/g%2Fp/jobs/7''),
       reply_ok (Obj [(''id'', Num 7), (''pipeline'', Obj [(''id'', Num 11)])])),
      ((''GET'', ''https://h.io/api/v4/projects/g%2Fp/pipelines/9''),
       reply_ok (Obj [(''id'', Num 9), (''status'', Str ''running'')])),
      ((''GET'', ''https://h.io/api/v4/projects/g%2Fp/pipelines/77''),
       reply_ok (Obj [(''id'', Num 77), (''status'', Str ''failed'')])),
      ((''POST'', ''https://h.io/api/v4/projects/g%2Fp/pipelines/77/retry''),
       reply_ok (Obj [(''id'', Num 77), (''status'', Str ''pending'')])),
      ((''POST'', ''https://h.io/api/v4/projects/g%2Fp/pipelines/9/retry''),
       reply_ok (Obj [(''id'', Num 9), (''status'', Str ''pending'')]))]"

definition cancel_ok :: "(string \<times> string) \<times> response" where
  "cancel_ok =
     ((''POST'', ''https://h.io/api/v4/projects/g%2Fp/pipelines/9/cancel''),
      reply_ok (Obj [(''id'', Num 9), (''status'', Str ''canceled'')]))"

definition cancel_forbidden :: "(string \<times> string) \<times> response" where
  "cancel_forbidden =
     ((''POST'', ''https://h.io/api/v4/projects/g%2Fp/pipelines/9/cancel''),
      \<lparr>status = 403, statusText = ''Forbidden'',
       json = Inr (Obj [(''message'', Str ''403 Forbidden'')])\<rparr>)"

definition rerunning :: env where
  "rerunning = world (table_remote (cancel_ok # pipeline_table))"

definition in_ci :: env where
  "in_ci = (world (table_remote (cancel_ok # pipeline_table)))\<lparr>CI_PIPELINE_ID := Some ''77''\<rparr>"

definition uncancellable :: env where
  "uncancellable = world (table_remote (cancel_forbidden # pipeline_table))"

text \<open>Requests without a body, as they appear in the trace of the example sessions.\<close>

definition get_req :: "string \<Rightarrow> event" where
  "get_req u = Fetch \<lparr>req_method = ''GET'', req_url = u, req_token = ''glpat'', req_body = None\<rparr>"

definition post_req :: "string \<Rightarrow> event" where
  "post_req u = Fetch \<lparr>req_method = ''POST'', req_url = u, req_token = ''glpat'', req_body = None\<rparr>"

text \<open>
  Instances for \<open>startRunner\<close>: one whose origin answers the version probe with a JSON
  object that has no \<open>version\<close>, and one that refuses to show the project.
\<close>

definition versionless :: env where
  "versionless = world (table_remote [((''GET'', ''https://h.io/api/v4/version''), reply_ok (Obj []))])"

definition forbidding :: env where
  "forbidding =
     world (table_remote
       [((''GET'', ''https://h.io/api/v4/version''), version_ok),
        ((''GET'', ''https://h.io/api/v4/projects/g%2Fp''),
         \<lparr>status = 403, statusText = ''Forbidden'',
          json = Inr (Obj [(''message'', Str ''403 Forbidden'')])\<rparr>)])"

definition runner0 :: runner_opts where
  "runner0 = \<lparr>workdir = ''/tmp/w'', idleTimeout = Num 300, single = Bool True,
              labels = Str ''cml,gpu'', name = Str ''cml-1'', dockerVolumes = [Str ''/a:/b'']\<rparr>"


section \<open>Sequencing and the trace\<close>

lemma bind_InrE:
  assumes "bind m f s = (Inr y, t)"
  obtains x s' where "m s = (Inr x, s')" and "f x s' = (Inr y, t)"
  using assms by (auto simp: bind_def split: prod.splits sum.splits)

lemma fetch_state: "snd (fetch E rq s) = s\<lparr>trace := trace s @ [Fetch rq]\<rparr>"
  by (simp add: fetch_def split: fetch_result.splits)

lemma fetch_args_trace [simp]: "fetch_args (s\<lparr>trace := tr\<rparr>) a opts = fetch_args s a opts"
  by (simp add: fetch_args_def)

lemma request_url_state:
  "a \<noteq> [] \<Longrightarrow>
   snd (request_url E (Some a) opts s) = s\<lparr>trace := trace s @ [Fetch (fetch_args s a opts)]\<rparr>"
  by (auto simp: request_url_def bind_def fetch_def throw_def ret_def lift_def
           split: fetch_result.splits sum.splits prod.splits)

lemma version_url_nonempty: "version_url p \<noteq> []"
  by (simp add: version_url_def)

lemma probe_state:
  "snd (probe E p s) =
   s\<lparr>trace := trace s @ [Fetch (fetch_args s (version_url p)
                                   (opts0\<lparr>url := Some (version_url p)\<rparr>))]\<rparr>"
proof -
  have "snd (probe E p s) =
        snd (request_url E (Some (version_url p)) (opts0\<lparr>url := Some (version_url p)\<rparr>) s)"
    by (simp add: probe_def split: prod.splits sum.splits reply.splits)
  then show ?thesis
    by (simp add: request_url_state version_url_nonempty)
qed

lemma probes_Cons_fst:
  "fst (probes E (p # ps) s) = fst (probe E p s) # fst (probes E ps (snd (probe E p s)))"
  by (simp split: prod.splits)

lemma probes_Cons_snd: "snd (probes E (p # ps) s) = snd (probes E ps (snd (probe E p s)))"
  by (simp split: prod.splits)

lemma probes_state:
  "snd (probes E ps s) =
   s\<lparr>trace := trace s @ map (\<lambda>p. Fetch (fetch_args s (version_url p)
                                            (opts0\<lparr>url := Some (version_url p)\<rparr>))) ps\<rparr>"
proof (induction ps arbitrary: s)
  case Nil
  show ?case by simp
next
  case (Cons p ps)
  show ?case
    by (simp add: probes_Cons_snd Cons.IH probe_state del: probes.simps(2))
qed

lemma probes_length: "length (fst (probes E ps s)) = length ps"
  by (induction ps arbitrary: s) (simp_all add: probes_Cons_fst del: probes.simps(2))

section \<open>The cache of the detected base\<close>

lemma repoBase_cached: "detectedBase s = Some b \<Longrightarrow> b \<noteq> [] \<Longrightarrow> repoBase E s = (Inr b, s)"
  by (simp add: repoBase_def)

lemma detect_Inr: "detect E s = (Inr b, s') \<Longrightarrow> detectedBase s' = Some b \<and> b \<noteq> []"
  by (auto simp: detect_def Let_def split: option.splits prod.splits list.splits if_splits)

lemma repoBase_Inr: "repoBase E s = (Inr b, s') \<Longrightarrow> detectedBase s' = Some b \<and> b \<noteq> []"
  by (auto simp: repoBase_def dest: detect_Inr split: option.splits if_splits)

lemma at_origin_base:
  "repoBase at_origin fresh =
     (Inr ''https://h.io'',
      fresh\<lparr>detectedBase := Some ''https://h.io'',
            trace := [Fetch \<lparr>req_method = ''GET'', req_url = ''https://h.io/api/v4/version'',
                             req_token = ''glpat'', req_body = None\<rparr>,
                      Fetch \<lparr>req_method = ''GET'', req_url = ''https://h.io/g/api/v4/version'',
                             req_token = ''glpat'', req_body = None\<rparr>]\<rparr>)"
  by code_simp

text \<open>
  C7.  \<open>prAutoMerge\<close> with \<open>mergeMode\<close> \<open>'rebase'\<close> throws the error "Rebase auto-merge
  mode not implemented for GitLab" and leaves the session as it was: the trace gains no
  event, so no network call is made before the failure.
\<close>

theorem prAutoMerge_rebase:
  "prAutoMerge E pullRequestId (Str ''rebase'') mergeMessage s =
     (Inl (Error ''Rebase auto-merge mode not implemented for GitLab''), s)"
  by (simp add: prAutoMerge_def throw_def)

text \<open>
  C8.  Once a call of \<open>repoBase\<close> has returned a base \<open>b\<close>, every later call on a
  session that still holds that cache returns \<open>b\<close> and leaves the session, hence the
  trace, untouched: no probe is issued again, whatever the remote would answer by then.
\<close>

theorem repoBase_idempotent:
  assumes "repoBase E s = (Inr b, s')" and "detectedBase t = detectedBase s'"
  shows "repoBase E' t = (Inr b, t)"
  using repoBase_Inr [OF assms(1)] assms(2) by (simp add: repoBase_cached)

theorem repoBase_idempotent_witness:
  "repoBase at_origin (snd (repoBase at_origin fresh)) =
     (Inr ''https://h.io'', snd (repoBase at_origin fresh))
   \<and> length (trace (snd (repoBase at_origin (snd (repoBase at_origin fresh))))) = 2"
proof -
  have "repoBase at_origin fresh = (Inr ''https://h.io'', snd (repoBase at_origin fresh))"
    by (simp add: at_origin_base)
  from repoBase_idempotent [OF this refl, of at_origin]
  show ?thesis by (simp add: at_origin_base)
qed

section \<open>Token and repository never change\<close>

lemma steadyD: "steady m \<Longrightarrow> m s = (r, s') \<Longrightarrow> repo s' = repo s \<and> token s' = token s"
  by (auto simp: steady_def evolves_def dest: spec [of _ s])

lemma steady_ret [simp]: "steady (ret x)" and steady_throw [simp]: "steady (throw e)"
  and steady_lift [simp]: "steady (lift r)" and steady_emit [simp]: "steady (emit ev)"
  by (simp_all add: steady_def evolves_def ret_def throw_def lift_def emit_def)

lemma steady_bind: "steady m \<Longrightarrow> (\<And>x. steady (f x)) \<Longrightarrow> steady (bind m f)"
  unfolding steady_def evolves_def bind_def
  by (auto split: prod.splits sum.splits) (metis snd_conv)+

lemma steady_request_url: "steady (request_url E u opts)"
proof (cases "\<exists>a. u = Some a \<and> a \<noteq> []")
  case True
  then show ?thesis
    by (auto simp: steady_def evolves_def request_url_state)
next
  case False
  then show ?thesis
    by (cases u) (auto simp: steady_def evolves_def request_url_def throw_def)
qed

lemma steady_detect: "steady (detect E)"
proof -
  have "evolves s (snd (detect E s))" for s
  proof (cases "parseURL E (repo s)")
    case None
    then show ?thesis by (simp add: detect_def evolves_def)
  next
    case (Some u)
    obtain rs s1 where p: "probes E (candidates (origin u) (segments (pathname u))) s = (rs, s1)"
      by (cases "probes E (candidates (origin u) (segments (pathname u))) s")
    have "s1 = snd (probes E (candidates (origin u) (segments (pathname u))) s)"
      by (simp add: p)
    then have "token s1 = token s \<and> repo s1 = repo s"
      by (simp add: probes_state)
    then show ?thesis
      by (simp add: detect_def Some p Let_def evolves_def split: option.splits list.splits)
  qed
  then show ?thesis by (simp add: steady_def)
qed

lemma steady_repoBase: "steady (repoBase E)"
  using steady_detect [of E]
  by (auto simp: steady_def repoBase_def evolves_def split: option.splits)

lemma steady_request_target: "steady (request_target E opts)"
  by (auto simp: request_target_def steady_repoBase intro!: steady_bind split: option.splits)

lemma steady_request: "steady (request E opts)"
  by (simp add: request_def steady_bind steady_request_target steady_request_url)

lemma steady_projectPath: "steady (projectPath E)"
proof -
  have "steady (\<lambda>s. ret (encodeURIComponent (substr1 (replace_first b (repo s)))) s)" for b
    by (simp add: steady_def evolves_def ret_def)
  then show ?thesis
    by (simp add: projectPath_def steady_bind steady_repoBase)
qed

text \<open>
  C10.  Whenever \<open>commentCreate\<close> returns, the value is the configured repository URL
  followed by \<open>/-/commit/\<close> and the commit SHA.  The answer of the provider to the
  creation request does not enter the value: the statement holds for every remote.
\<close>

theorem commentCreate_url:
  assumes "commentCreate E commitSha report s = (Inr u, s')"
  shows "u = repo s @ ''/-/commit/'' @ to_string commitSha"
proof -
  from assms [unfolded commentCreate_def] obtain pp s1
    where pp: "projectPath E s = (Inr pp, s1)"
      and rest: "bind (request E (comment_opts pp commitSha report))
                   (\<lambda>_ s. ret (repo s @ ''/-/commit/'' @ to_string commitSha) s) s1 = (Inr u, s')"
    by (rule bind_InrE)
  from rest obtain r s2
    where rq: "request E (comment_opts pp commitSha report) s1 = (Inr r, s2)"
      and u: "ret (repo s2 @ ''/-/commit/'' @ to_string commitSha) s2 = (Inr u, s')"
    by (rule bind_InrE)
  have "repo s1 = repo s" using steadyD [OF steady_projectPath pp] by simp
  moreover have "repo s2 = repo s1" using steadyD [OF steady_request rq] by simp
  ultimately show ?thesis using u by (simp add: ret_def)
qed


theorem commentCreate_url_witness:
  "commentCreate commenting (Str ''abc123'') (Str ''hello'') fresh
     = (Inr ''https://h.io/g/p/-/commit/abc123'',
        snd (commentCreate commenting (Str ''abc123'') (Str ''hello'') fresh))
   \<and> ''https://h.io/g/p/-/commit/abc123'' = repo fresh @ ''/-/commit/'' @ to_string (Str ''abc123'')"
proof -
  have run: "commentCreate commenting (Str ''abc123'') (Str ''hello'') fresh
     = (Inr ''https://h.io/g/p/-/commit/abc123'',
        snd (commentCreate commenting (Str ''abc123'') (Str ''hello'') fresh))"
    by code_simp
  from commentCreate_url [OF run] run show ?thesis by simp
qed

section \<open>Outcome of a request\<close>

lemma request_url_responded:
  assumes "a \<noteq> []" and "remote E (trace s) (fetch_args s a opts) = Responded r"
  shows "fst (request_url E (Some a) opts s) =
           (if 300 < status r then Inl (Error (statusText r))
            else if raw opts then Inr (Raw r)
            else (case json r of Inl m \<Rightarrow> Inl (Error m) | Inr j \<Rightarrow> Inr (Parsed j)))"
  using assms
  by (simp add: request_url_def bind_def fetch_def throw_def ret_def lift_def split: sum.splits)

text \<open>
  C3, as the claim states it, fails.  A \<open>raw\<close> request that is answered 204 returns the
  response envelope, not a parsed body; a request that is answered 200 with a body that is
  not JSON fails although the status is below 300.
\<close>

theorem request_status_counterexample:
  "fst (request deleting (opts0\<lparr>endpoint := Some ''/runners/7'', http_method := Some ''DELETE'', raw := True\<rparr>) cached)
     = Inr (Raw \<lparr>status = 204, statusText = ''No Content'', json = Inl ''Unexpected end of JSON input''\<rparr>)
   \<and> fst (request serving_html (opts0\<lparr>endpoint := Some ''/runners/7''\<rparr>) cached)
     = Inl (Error ''Unexpected token < in JSON at position 0'')
   \<and> trace (snd (request serving_html (opts0\<lparr>endpoint := Some ''/runners/7''\<rparr>) cached))
     = [Fetch \<lparr>req_method = ''GET'', req_url = ''https://h.io/api/v4/runners/7'', req_token = ''glpat'', req_body = None\<rparr>]
   \<and> remote serving_html [] \<lparr>req_method = ''GET'', req_url = ''https://h.io/api/v4/runners/7'', req_token = ''glpat'', req_body = None\<rparr>
     = Responded \<lparr>status = 200, statusText = ''OK'', json = Inl ''Unexpected token < in JSON at position 0''\<rparr>"
  by code_simp


text \<open>
  C3, amended.  When \<open>request\<close> has determined a non-empty URL and the remote answers
  the fetch with a response \<open>r\<close> whose status is not 300: if the status is above 300
  the call fails with an \<open>Error\<close> carrying the status text; if it is below 300 the call
  returns the response envelope when \<open>raw\<close> is set, and otherwise the parsed body, or
  the error of the parser when the body is not JSON.
\<close>

theorem request_status:
  assumes "request_target E opts s = (Inr (Some a), s1)" and "a \<noteq> []"
    and "remote E (trace s1) (fetch_args s1 a opts) = Responded r"
    and "status r \<noteq> 300"
  shows "fst (request E opts s) =
           (if 300 < status r then Inl (Error (statusText r))
            else if raw opts then Inr (Raw r)
            else (case json r of Inl m \<Rightarrow> Inl (Error m) | Inr j \<Rightarrow> Inr (Parsed j)))"
proof -
  have "request E opts s = request_url E (Some a) opts s1"
    using assms(1) by (simp add: request_def bind_def)
  then show ?thesis
    using request_url_responded [OF assms(2) assms(3)] by simp
qed

theorem request_status_witness:
  "fst (request deleting (opts0\<lparr>endpoint := Some ''/runners/7'', http_method := Some ''DELETE'', raw := True\<rparr>) cached)
     = Inr (Raw no_content)
   \<and> fst (request deleting (opts0\<lparr>endpoint := Some ''/runners/7''\<rparr>) cached) = Inl (Error ''Not Found'')"
proof -
  let ?o1 = "opts0\<lparr>endpoint := Some ''/runners/7'', http_method := Some ''DELETE'', raw := True\<rparr>"
  let ?o2 = "opts0\<lparr>endpoint := Some ''/runners/7''\<rparr>"
  have t1: "request_target deleting ?o1 cached = (Inr (Some ''https://h.io/api/v4/runners/7''), cached)"
    by code_simp
  have t2: "request_target deleting ?o2 cached = (Inr (Some ''https://h.io/api/v4/runners/7''), cached)"
    by code_simp
  have n: "''https://h.io/api/v4/runners/7'' \<noteq> []" by simp
  have r1: "remote deleting (trace cached) (fetch_args cached ''https://h.io/api/v4/runners/7'' ?o1) = Responded no_content"
    by code_simp
  have r2: "remote deleting (trace cached) (fetch_args cached ''https://h.io/api/v4/runners/7'' ?o2) = Responded not_found"
    by code_simp
  have s1: "status no_content \<noteq> 300" by (simp add: no_content_def)
  have s2: "status not_found \<noteq> 300" by (simp add: not_found_def)
  from request_status [OF t1 n r1 s1] request_status [OF t2 n r2 s2]
  show ?thesis by (simp add: no_content_def not_found_def opts0_def)
qed

section \<open>Failure of the base detection\<close>

lemma find_string_None: "\<forall>r\<in>set rs. \<not> is_base r \<Longrightarrow> find_string rs = None"
proof -
  assume "\<forall>r\<in>set rs. \<not> is_base r"
  then have "find is_base rs = None" by (simp add: find_None_iff)
  then show ?thesis by (simp add: find_string_def)
qed

lemma repoBase_uncached: "\<not> truthy_str (detectedBase s) \<Longrightarrow> repoBase E s = detect E s"
  by (cases "detectedBase s") (simp_all add: repoBase_def)

lemma nowhere_probes:
  "fst (probes nowhere (candidates ''https://h.io'' (segments ''/g/p'')) fresh)
     = [Failed (Error ''Not Found''), Failed (Error ''Not Found'')]"
  by code_simp

text \<open>
  C4, as the claim states it, fails.  With a remote that answers 404 to every probe,
  \<open>repoBase\<close> throws the very error that the request of the first probe throws,
  \<open>Error('Not Found')\<close>: nothing wraps it.
\<close>

theorem repoBase_unwrapped_counterexample:
  "fst (repoBase nowhere fresh) = Inl (Error ''Not Found'')
   \<and> fst (request nowhere (opts0\<lparr>url := Some ''https://h.io/api/v4/version''\<rparr>) fresh)
       = Inl (Error ''Not Found'')"
  by code_simp


text \<open>
  C4, amended.  On a session without a cached base and with a parsable repository URL:
  when the path has no segment, \<open>repoBase\<close> fails with
  \<open>Error('Invalid repository address')\<close> and issues no request; when every probe ends in
  a caught error, \<open>repoBase\<close> throws the error caught by the first probe (the one of the
  origin), as it is.
\<close>

theorem repoBase_all_fail:
  assumes "\<not> truthy_str (detectedBase s)" and "parseURL E (repo s) = Some u"
  shows "(segments (pathname u) = [] \<longrightarrow>
            repoBase E s = (Inl (Error ''Invalid repository address''), s\<lparr>detectedBase := None\<rparr>))
       \<and> (fst (probes E (candidates (origin u) (segments (pathname u))) s) = Failed e # rest
            \<longrightarrow> (\<forall>r\<in>set rest. \<exists>e'. r = Failed e') \<longrightarrow> fst (repoBase E s) = Inl e)"
proof (intro conjI impI)
  assume "segments (pathname u) = []"
  then show "repoBase E s = (Inl (Error ''Invalid repository address''), s\<lparr>detectedBase := None\<rparr>)"
    using assms
    by (simp add: repoBase_uncached detect_def candidates_def find_string_def)
next
  let ?ps = "probes E (candidates (origin u) (segments (pathname u))) s"
  assume rs: "fst ?ps = Failed e # rest" and rest: "\<forall>r\<in>set rest. \<exists>e'. r = Failed e'"
  have "\<forall>r\<in>set (Failed e # rest). \<not> is_base r" using rest by auto
  then have "find_string (Failed e # rest) = None" by (rule find_string_None)
  moreover obtain s1 where "?ps = (Failed e # rest, s1)" using rs by (cases ?ps) simp
  ultimately show "fst (repoBase E s) = Inl e"
    using assms by (simp add: repoBase_uncached detect_def)
qed

theorem repoBase_all_fail_witness:
  "repoBase nowhere bare = (Inl (Error ''Invalid repository address''), bare\<lparr>detectedBase := None\<rparr>)
   \<and> fst (repoBase nowhere fresh) = Inl (Error ''Not Found'')"
proof -
  have c1: "\<not> truthy_str (detectedBase bare)" and c2: "\<not> truthy_str (detectedBase fresh)"
    by (simp_all add: bare_def fresh_def)
  have p1: "parseURL nowhere (repo bare) =
              Some \<lparr>origin = ''https://h.io'', pathname = ''/'', protocol = ''https:'', host = ''h.io''\<rparr>"
    by code_simp
  have p2: "parseURL nowhere (repo fresh) =
              Some \<lparr>origin = ''https://h.io'', pathname = ''/g/p'', protocol = ''https:'', host = ''h.io''\<rparr>"
    by code_simp
  have g1: "segments ''/'' = []" by code_simp
  from repoBase_all_fail [OF c1 p1] g1
  have a: "repoBase nowhere bare = (Inl (Error ''Invalid repository address''), bare\<lparr>detectedBase := None\<rparr>)"
    by simp
  from repoBase_all_fail [OF c2 p2, of "Error ''Not Found''" "[Failed (Error ''Not Found'')]"] nowhere_probes
  have b: "fst (repoBase nowhere fresh) = Inl (Error ''Not Found'')"
    by simp
  from a b show ?thesis by simp
qed


section \<open>Order of the candidates\<close>

lemma probe_Base: "fst (probe E p s) = Base b \<Longrightarrow> b = p"
  by (auto simp: probe_def split: prod.splits sum.splits reply.splits if_splits)

lemma probes_nth_Base:
  "i < length ps \<Longrightarrow> fst (probes E ps s) ! i = Base b \<Longrightarrow> b = ps ! i"
proof (induction ps arbitrary: i s)
  case Nil
  then show ?case by simp
next
  case (Cons p ps)
  show ?case
  proof (cases i)
    case 0
    with Cons.prems show ?thesis
      by (simp add: probes_Cons_fst probe_Base del: probes.simps(2))
  next
    case (Suc k)
    with Cons.prems Cons.IH [of k "snd (probe E p s)"] show ?thesis
      by (simp add: probes_Cons_fst del: probes.simps(2))
  qed
qed

lemma find_string_Some_iff:
  "find_string rs = Some b \<longleftrightarrow>
     (\<exists>i<length rs. rs ! i = Base b \<and> (\<forall>j<i. \<not> is_base (rs ! j)))"
proof
  assume "find_string rs = Some b"
  then have "find is_base rs = Some (Base b)"
    by (auto simp: find_string_def split: option.splits probe_result.splits)
  then show "\<exists>i<length rs. rs ! i = Base b \<and> (\<forall>j<i. \<not> is_base (rs ! j))"
    by (auto simp: find_Some_iff)
next
  assume "\<exists>i<length rs. rs ! i = Base b \<and> (\<forall>j<i. \<not> is_base (rs ! j))"
  then have "find is_base rs = Some (Base b)"
    by (auto simp: find_Some_iff)
  then show "find_string rs = Some b" by (simp add: find_string_def)
qed

lemma detect_fst:
  assumes "parseURL E (repo s) = Some u"
  shows "fst (detect E s) = Inr b \<longleftrightarrow>
           b \<noteq> [] \<and> find_string (fst (probes E (candidates (origin u) (segments (pathname u))) s)) = Some b"
  using assms
  by (cases "probes E (candidates (origin u) (segments (pathname u))) s")
     (auto simp: detect_def Let_def split: option.splits list.splits)

lemma detect_trace:
  assumes "parseURL E (repo s) = Some u"
  shows "trace (snd (detect E s)) =
           trace s @ map (\<lambda>c. Fetch (probe_args s c)) (candidates (origin u) (segments (pathname u)))"
proof -
  let ?cs = "candidates (origin u) (segments (pathname u))"
  obtain rs s1 where p: "probes E ?cs s = (rs, s1)" by (cases "probes E ?cs s")
  then have "s1 = snd (probes E ?cs s)" by simp
  then have "trace s1 = trace s @ map (\<lambda>c. Fetch (probe_args s c)) ?cs"
    by (simp add: probes_state probe_args_def)
  then show ?thesis
    using assms p by (simp add: detect_def Let_def split: option.splits list.splits)
qed

text \<open>
  C1, as the claim states it, fails.  For the repository \<open>https://h.io/g/p\<close> on an
  instance that answers under the origin and under \<open>/g\<close>, \<open>repoBase\<close> returns the
  origin, while trying the prefixes from the longest to the shortest returns
  \<open>https://h.io/g\<close>; and only two probes are issued for the three prefixes: the whole
  path \<open>/g/p\<close> is no candidate.
\<close>

theorem repoBase_order_counterexample:
  "fst (repoBase mirrored fresh) = Inr ''https://h.io''
   \<and> resolveBase_spec (probe_ok mirrored fresh) ''https://h.io'' (segments ''/g/p'') = Some ''https://h.io/g''
   \<and> trace (snd (repoBase mirrored fresh)) =
       [Fetch \<lparr>req_method = ''GET'', req_url = ''https://h.io/api/v4/version'',
               req_token = ''glpat'', req_body = None\<rparr>,
        Fetch \<lparr>req_method = ''GET'', req_url = ''https://h.io/g/api/v4/version'',
               req_token = ''glpat'', req_body = None\<rparr>]
   \<and> prefixes_longest_first (segments ''/g/p'') = [[''g'', ''p''], [''g''], []]"
  by code_simp


text \<open>
  C1, amended.  On a session without a cached base and with a parsable repository URL,
  \<open>repoBase\<close> has one candidate \<open>origin + joined-prefix\<close> for every proper prefix of the
  segment list (the prefix of length \<open>i\<close> for every index \<open>i\<close> of the list, so the whole
  list is excluded), issues exactly one version probe per candidate, from the shortest to
  the longest, and returns \<open>b\<close> exactly when \<open>b\<close> is the shortest candidate whose probe
  yielded it.
\<close>

theorem repoBase_shortest_first:
  assumes "\<not> truthy_str (detectedBase s)" and "parseURL E (repo s) = Some u"
    and "cs = candidates (origin u) (segments (pathname u))"
    and "rs = fst (probes E cs s)"
  shows "length cs = length (segments (pathname u))
       \<and> (\<forall>i<length cs. cs ! i = join ''/'' (origin u # take i (segments (pathname u))))
       \<and> trace (snd (repoBase E s)) = trace s @ map (\<lambda>c. Fetch (probe_args s c)) cs
       \<and> (fst (repoBase E s) = Inr b \<longleftrightarrow>
            b \<noteq> [] \<and> (\<exists>i<length cs. cs ! i = b \<and> rs ! i = Base b \<and> (\<forall>j<i. \<not> is_base (rs ! j))))"
proof (intro conjI)
  show "length cs = length (segments (pathname u))"
    by (simp add: assms(3) candidates_def)
  show "\<forall>i<length cs. cs ! i = join ''/'' (origin u # take i (segments (pathname u)))"
    by (simp add: assms(3) candidates_def)
  show "trace (snd (repoBase E s)) = trace s @ map (\<lambda>c. Fetch (probe_args s c)) cs"
    using assms(1) by (simp add: repoBase_uncached detect_trace [OF assms(2)] assms(3))
  have len: "length rs = length cs" by (simp add: assms(4) probes_length)
  have "fst (repoBase E s) = Inr b \<longleftrightarrow> b \<noteq> [] \<and> find_string rs = Some b"
    using assms(1) by (simp add: repoBase_uncached detect_fst [OF assms(2)] assms(3,4))
  also have "\<dots> \<longleftrightarrow> b \<noteq> [] \<and> (\<exists>i<length cs. rs ! i = Base b \<and> (\<forall>j<i. \<not> is_base (rs ! j)))"
    by (simp add: find_string_Some_iff len)
  also have "\<dots> \<longleftrightarrow> b \<noteq> [] \<and> (\<exists>i<length cs. cs ! i = b \<and> rs ! i = Base b \<and> (\<forall>j<i. \<not> is_base (rs ! j)))"
    using probes_nth_Base [of _ cs E s b] by (auto simp: assms(4))
  finally show "fst (repoBase E s) = Inr b \<longleftrightarrow>
            b \<noteq> [] \<and> (\<exists>i<length cs. cs ! i = b \<and> rs ! i = Base b \<and> (\<forall>j<i. \<not> is_base (rs ! j)))" .
qed

theorem repoBase_shortest_first_witness:
  "length [''https://h.io'', ''https://h.io/g''] = length (segments ''/g/p'')
   \<and> trace (snd (repoBase mirrored fresh)) =
       map (\<lambda>c. Fetch (probe_args fresh c)) [''https://h.io'', ''https://h.io/g'']
   \<and> fst (repoBase mirrored fresh) = Inr ''https://h.io''"
proof -
  let ?u = "\<lparr>origin = ''https://h.io'', pathname = ''/g/p'', protocol = ''https:'', host = ''h.io''\<rparr>"
  have c: "\<not> truthy_str (detectedBase fresh)" by (simp add: fresh_def)
  have p: "parseURL mirrored (repo fresh) = Some ?u" by code_simp
  have cs: "[''https://h.io'', ''https://h.io/g''] = candidates (origin ?u) (segments (pathname ?u))"
    by code_simp
  have rs: "[Base ''https://h.io'', Base ''https://h.io/g'']
              = fst (probes mirrored [''https://h.io'', ''https://h.io/g''] fresh)"
    by code_simp
  have tr: "trace fresh = []" by (simp add: fresh_def)
  from repoBase_shortest_first [OF c p cs rs, of "''https://h.io''"] tr
  show ?thesis by auto
qed

section \<open>Listing merge requests\<close>

lemma pr_summary_total:
  "x \<noteq> Undefined \<Longrightarrow> x \<noteq> Null \<Longrightarrow> \<exists>y. pr_summary x = Inr y"
  by (cases x) (auto simp: pr_summary_def split: option.splits)

lemma map_throw_total:
  "\<forall>x\<in>set xs. \<exists>y. f x = Inr y \<Longrightarrow>
   \<exists>ys. map_throw f xs = Inr ys \<and> list_all2 (\<lambda>x y. f x = Inr y) xs ys"
proof (induction xs)
  case Nil
  show ?case by simp
next
  case (Cons x xs)
  then obtain y ys where "f x = Inr y" and "map_throw f xs = Inr ys"
    and "list_all2 (\<lambda>x y. f x = Inr y) xs ys"
    by auto
  then show ?case by simp
qed

lemma listing_prs:
  "prs listing Undefined fresh =
     (Inr [Obj [(''url'', Str ''https://h.io/g/p/-/merge_requests/1''),
                (''source'', Str ''feature''), (''target'', Str ''main'')],
           Obj [(''url'', Str ''https://h.io/g/p/-/merge_requests/2''),
                (''source'', Str ''hotfix''), (''target'', Str ''main'')]],
      snd (prs listing Undefined fresh))"
  by code_simp

text \<open>
  C2, as the claim states it, fails.  When the answer of the remote to the listing holds
  a merged entry, the list returned by \<open>prs\<close> holds the summary of that entry.
\<close>

theorem prs_unfiltered_counterexample:
  "is_opened mr_merged = Inr False
   \<and> pr_summary mr_merged = Inr (Obj [(''url'', Str ''https://h.io/g/p/-/merge_requests/2''),
                                       (''source'', Str ''hotfix''), (''target'', Str ''main'')])
   \<and> fst (prs listing Undefined fresh) =
       Inr [Obj [(''url'', Str ''https://h.io/g/p/-/merge_requests/1''),
                 (''source'', Str ''feature''), (''target'', Str ''main'')],
            Obj [(''url'', Str ''https://h.io/g/p/-/merge_requests/2''),
                 (''source'', Str ''hotfix''), (''target'', Str ''main'')]]"
  by code_simp

text \<open>
  C2, amended.  \<open>prs\<close> asks the remote for the merge requests in the given state
  (\<open>state=opened\<close> by default) and returns one summary per entry of the answer, in the
  order of the answer and whatever the state of the entry: nothing is filtered locally.
\<close>

theorem prs_unfiltered:
  assumes "projectPath E s = (Inr pp, s1)"
    and "request_json E (prs_opts pp state) s1 = (Inr (Arr xs), s2)"
    and "Undefined \<notin> set xs" and "Null \<notin> set xs"
  shows "(\<exists>ys. prs E state s = (Inr ys, s2) \<and> list_all2 (\<lambda>x y. pr_summary x = Inr y) xs ys)
       \<and> endpoint (prs_opts pp Undefined) = Some (''/projects/'' @ pp @ ''/merge_requests?state=opened'')"
proof -
  have "\<forall>x\<in>set xs. \<exists>y. pr_summary x = Inr y"
    using assms(3,4) by (metis pr_summary_total)
  then obtain ys where ys: "map_throw pr_summary xs = Inr ys"
    and all: "list_all2 (\<lambda>x y. pr_summary x = Inr y) xs ys"
    using map_throw_total by blast
  have "prs E state s = (Inr ys, s2)"
    using assms(1,2) ys by (simp add: prs_def bind_def lift_def)
  with all show ?thesis by (auto simp: prs_opts_def opts0_def)
qed

theorem prs_unfiltered_witness:
  "prs listing Undefined fresh =
     (Inr [Obj [(''url'', Str ''https://h.io/g/p/-/merge_requests/1''),
                (''source'', Str ''feature''), (''target'', Str ''main'')],
           Obj [(''url'', Str ''https://h.io/g/p/-/merge_requests/2''),
                (''source'', Str ''hotfix''), (''target'', Str ''main'')]],
      snd (prs listing Undefined fresh))
   \<and> list_all2 (\<lambda>x y. pr_summary x = Inr y) [mr_open, mr_merged]
        [Obj [(''url'', Str ''https://h.io/g/p/-/merge_requests/1''),
              (''source'', Str ''feature''), (''target'', Str ''main'')],
         Obj [(''url'', Str ''https://h.io/g/p/-/merge_requests/2''),
              (''source'', Str ''hotfix''), (''target'', Str ''main'')]]"
proof -
  have pp: "projectPath listing fresh = (Inr ''g%2Fp'', snd (projectPath listing fresh))"
    by code_simp
  have rq: "request_json listing (prs_opts ''g%2Fp'' Undefined) (snd (projectPath listing fresh))
              = (Inr (Arr [mr_open, mr_merged]), snd (prs listing Undefined fresh))"
    by code_simp
  have "Undefined \<notin> set [mr_open, mr_merged]" and "Null \<notin> set [mr_open, mr_merged]"
    by (simp_all add: mr_open_def mr_merged_def)
  from prs_unfiltered [OF pp rq this] obtain ys
    where run: "prs listing Undefined fresh = (Inr ys, snd (prs listing Undefined fresh))"
      and all: "list_all2 (\<lambda>x y. pr_summary x = Inr y) [mr_open, mr_merged] ys"
    by blast
  have "fst (prs listing Undefined fresh) = Inr ys" by (subst run) simp
  moreover have "fst (prs listing Undefined fresh) =
      Inr [Obj [(''url'', Str ''https://h.io/g/p/-/merge_requests/1''),
                (''source'', Str ''feature''), (''target'', Str ''main'')],
           Obj [(''url'', Str ''https://h.io/g/p/-/merge_requests/2''),
                (''source'', Str ''hotfix''), (''target'', Str ''main'')]]"
    by (subst listing_prs) simp
  ultimately have "ys =
      [Obj [(''url'', Str ''https://h.io/g/p/-/merge_requests/1''),
            (''source'', Str ''feature''), (''target'', Str ''main'')],
       Obj [(''url'', Str ''https://h.io/g/p/-/merge_requests/2''),
            (''source'', Str ''hotfix''), (''target'', Str ''main'')]]"
    by simp
  with all listing_prs show ?thesis by blast
qed

section \<open>Requests under a cached base, retries and the fallback merge\<close>

lemma api_call_trace [simp]: "api_call (s\<lparr>trace := tr\<rparr>) b opts = api_call s b opts"
  by (simp add: api_call_def)

lemma request_cached:
  assumes "detectedBase s = Some b" and "b \<noteq> []" and "endpoint opts = Some e" and "e \<noteq> []"
  shows "request E opts s = request_url E (Some (b @ ''/api/'' @ API_VER @ e)) opts s"
  using assms by (simp add: request_def request_target_def bind_def repoBase_def ret_def)

lemma request_cached_state:
  assumes "detectedBase s = Some b" and "b \<noteq> []" and "endpoint opts = Some e" and "e \<noteq> []"
  shows "snd (request E opts s) = s\<lparr>trace := trace s @ [Fetch (api_call s b opts)]\<rparr>"
  using assms by (simp add: request_cached [OF assms] request_url_state api_call_def)

lemma library_Inl: "library r = Inl err \<Longrightarrow> \<exists>m. err = Error m"
  by (cases r) auto

lemma request_url_Inl: "fst (request_url E u opts s) = Inl err \<Longrightarrow> \<exists>m. err = Error m"
  by (cases u)
     (auto simp: request_url_def bind_def fetch_def throw_def ret_def lift_def
           dest: library_Inl split: fetch_result.splits sum.splits if_splits)

lemma request_cached_Inl:
  assumes "detectedBase s = Some b" and "b \<noteq> []" and "endpoint opts = Some e" and "e \<noteq> []"
    and "fst (request E opts s) = Inl err"
  shows "\<exists>m. err = Error m"
  using assms(5) request_url_Inl by (simp add: request_cached [OF assms(1-4)])

lemma try_catch_fst_snd:
  "try_catch m h s = (case fst (m s) of Inl e \<Rightarrow> h e (snd (m s)) | Inr x \<Rightarrow> (Inr x, snd (m s)))"
  by (simp add: try_catch_def split: prod.splits sum.splits)

lemma backOff_loop_all_fail:
  assumes "detectedBase s = Some b" and "b \<noteq> []" and "endpoint opts = Some e" and "e \<noteq> []"
    and "fst (backOff_loop n (request E opts) s) = Inl err" and "0 < n"
  shows "snd (backOff_loop n (request E opts) s)
           = s\<lparr>trace := trace s @ replicate n (Fetch (api_call s b opts))\<rparr>
         \<and> (\<exists>m. err = Error m)"
  using assms
proof (induction n arbitrary: s)
  case 0
  then show ?case by simp
next
  case (Suc n)
  let ?s' = "snd (request E opts s)"
  have st: "?s' = s\<lparr>trace := trace s @ [Fetch (api_call s b opts)]\<rparr>"
    by (rule request_cached_state [OF Suc.prems(1-4)])
  obtain e0 where e0: "fst (request E opts s) = Inl e0"
    using Suc.prems(5) by (cases "fst (request E opts s)") (auto simp: try_catch_fst_snd)
  show ?case
  proof (cases "n = 0")
    case True
    then have "backOff_loop (Suc n) (request E opts) s = (Inl e0, ?s')"
      using e0 by (simp add: try_catch_fst_snd throw_def)
    moreover have "\<exists>m. e0 = Error m"
      by (rule request_cached_Inl [OF Suc.prems(1-4) e0])
    ultimately show ?thesis using Suc.prems(5) True st by simp
  next
    case False
    then have step: "backOff_loop (Suc n) (request E opts) s = backOff_loop n (request E opts) ?s'"
      using e0 by (simp add: try_catch_fst_snd)
    have d: "detectedBase ?s' = Some b" using Suc.prems(1) by (simp add: st)
    have f: "fst (backOff_loop n (request E opts) ?s') = Inl err"
      using Suc.prems(5) step by simp
    from Suc.IH [OF d Suc.prems(2-4) f] False
    have "snd (backOff_loop n (request E opts) ?s')
           = ?s'\<lparr>trace := trace ?s' @ replicate n (Fetch (api_call ?s' b opts))\<rparr>
         \<and> (\<exists>m. err = Error m)" by simp
    then show ?thesis
      unfolding step by (simp add: st replicate_app_Cons_same)
  qed
qed


lemma projectPath_Inr:
  assumes "projectPath E s = (Inr pp, s1)"
  shows "\<exists>b. detectedBase s1 = Some b \<and> b \<noteq> []"
proof -
  from assms [unfolded projectPath_def] obtain b s'
    where rb: "repoBase E s = (Inr b, s')"
      and r: "ret (encodeURIComponent (substr1 (replace_first b (repo s')))) s' = (Inr pp, s1)"
    by (rule bind_InrE)
  from r have "s1 = s'" by (simp add: ret_def)
  with repoBase_Inr [OF rb] show ?thesis by blast
qed

lemma map_of_set_first: "k \<in> fst ` set b \<Longrightarrow> map_of (set_first b k v) k = Some v"
  by (induction b k v rule: set_first.induct) auto

lemma map_of_set_param: "map_of (set_param b k v) k = Some v"
proof (cases "k \<in> fst ` set b")
  case True
  then show ?thesis by (simp add: set_param_def map_of_set_first)
next
  case False
  then have "map_of b k = None" by (simp add: map_of_eq_None_iff)
  with False show ?thesis by (simp add: set_param_def append_def map_add_def)
qed

lemma map_of_filter_other:
  "k' \<noteq> k \<Longrightarrow> map_of (filter (\<lambda>p. fst p \<noteq> k) b) k' = map_of b k'"
  by (induction b) auto

lemma map_of_set_first_other: "k' \<noteq> k \<Longrightarrow> map_of (set_first b k v) k' = map_of b k'"
  by (induction b k v rule: set_first.induct) (auto simp: map_of_filter_other)

lemma map_of_set_param_other: "k' \<noteq> k \<Longrightarrow> map_of (set_param b k v) k' = map_of b k'"
  by (simp add: set_param_def append_def map_of_set_first_other map_add_def split: option.splits)

lemma commit_message_key: "''merge_when_pipeline_succeeds'' \<noteq> x @ ''_commit_message''"
proof
  assume "''merge_when_pipeline_succeeds'' = x @ ''_commit_message''"
  then have "last ''merge_when_pipeline_succeeds'' = last (x @ ''_commit_message'')" by simp
  then show False by simp
qed

lemma merge_body_gated:
  "map_of (merge_body mergeMode mergeMessage) ''merge_when_pipeline_succeeds'' = Some ''true''"
  by (simp add: merge_body_def Let_def map_of_set_param_other commit_message_key map_of_set_param)

text \<open>
  C5.  When \<open>prAutoMerge\<close> (mode other than rebase) has resolved the project path and
  \<open>backOff\<close> of the gated merge request fails, that is, every one of its
  \<open>numOfAttempts\<close> attempts failed: the trace gains the \<open>numOfAttempts\<close> gated requests
  (flag \<open>merge_when_pipeline_succeeds\<close> \<open>true\<close>), the warning, and then exactly one more
  request, the same merge with the flag set to \<open>false\<close>; nothing follows it, so it is not
  retried; and \<open>prAutoMerge\<close> returns normally whatever the remote answers to that last
  request.
\<close>

theorem prAutoMerge_fallback:
  assumes "mergeMode \<noteq> Str ''rebase''"
    and "projectPath E s = (Inr pp, s1)"
    and "gated = merge_opts (merge_endpoint pp pullRequestId) (merge_body mergeMode mergeMessage)"
    and "fallback = merge_opts (merge_endpoint pp pullRequestId)
                      (set_param (merge_body mergeMode mergeMessage)
                         ''merge_when_pipeline_succeeds'' ''false'')"
    and "fst (backOff (request E gated) s1) = Inl err"
  shows "fst (prAutoMerge E pullRequestId mergeMode mergeMessage s) = Inr ()
       \<and> (\<exists>b m. detectedBase s1 = Some b \<and> err = Error m \<and>
             trace (snd (prAutoMerge E pullRequestId mergeMode mergeMessage s)) =
               trace s1 @ replicate numOfAttempts (Fetch (api_call s1 b gated))
               @ [Warn (''Failed to enable auto-merge: '' @ m @ ''. Trying to merge immediately...''),
                  Fetch (api_call s1 b fallback)])
       \<and> map_of (merge_body mergeMode mergeMessage) ''merge_when_pipeline_succeeds'' = Some ''true''
       \<and> map_of (set_param (merge_body mergeMode mergeMessage) ''merge_when_pipeline_succeeds'' ''false'')
            ''merge_when_pipeline_succeeds'' = Some ''false''"
proof -
  obtain b where b: "detectedBase s1 = Some b" "b \<noteq> []"
    using projectPath_Inr [OF assms(2)] by blast
  have eg: "endpoint gated = Some (merge_endpoint pp pullRequestId)"
    and ef: "endpoint fallback = Some (merge_endpoint pp pullRequestId)"
    by (simp_all add: assms(3,4) merge_opts_def opts0_def)
  have ne: "merge_endpoint pp pullRequestId \<noteq> []" by (simp add: merge_endpoint_def)
  have pos: "0 < numOfAttempts" by (simp add: numOfAttempts_def)
  obtain r s2 where bo: "backOff (request E gated) s1 = (r, s2)"
    by (cases "backOff (request E gated) s1")
  with assms(5) have r: "r = Inl err" by simp
  from backOff_loop_all_fail [OF b eg ne assms(5) [unfolded backOff_def] pos] bo
  obtain m where s2: "s2 = s1\<lparr>trace := trace s1 @ replicate numOfAttempts (Fetch (api_call s1 b gated))\<rparr>"
    and m: "err = Error m"
    by (auto simp: backOff_def)
  define w where "w = Warn (''Failed to enable auto-merge: '' @ m @ ''. Trying to merge immediately...'')"
  define s3 where "s3 = s2\<lparr>trace := trace s2 @ [w]\<rparr>"
  have d3: "detectedBase s3 = Some b" by (simp add: s3_def s2 b)
  have handler: "bind (lift (message err))
           (\<lambda>msg. bind (emit (Warn (''Failed to enable auto-merge: '' @ to_string msg
                                      @ ''. Trying to merge immediately...'')))
              (\<lambda>_. fire_and_forget (request E fallback))) s2
         = (Inr (), snd (request E fallback s3))"
    by (simp add: m bind_def lift_def emit_def fire_and_forget_def s3_def w_def)
  have body: "try_catch (bind (backOff (request E gated)) (\<lambda>_. ret ()))
           (\<lambda>err. bind (lift (message err))
              (\<lambda>msg. bind (emit (Warn (''Failed to enable auto-merge: '' @ to_string msg
                                         @ ''. Trying to merge immediately...'')))
                 (\<lambda>_. fire_and_forget (request E fallback)))) s1
         = (Inr (), snd (request E fallback s3))"
    unfolding try_catch_def bind_def [of "backOff (request E gated)"] bo r
    using handler by simp
  have run: "prAutoMerge E pullRequestId mergeMode mergeMessage s
               = (Inr (), snd (request E fallback s3))"
    unfolding prAutoMerge_def using assms(1,2) body
    by (simp add: bind_def Let_def assms(3) [symmetric] assms(4) [symmetric])
  have "snd (request E fallback s3) = s3\<lparr>trace := trace s3 @ [Fetch (api_call s3 b fallback)]\<rparr>"
    by (rule request_cached_state [OF d3 b(2) ef ne])
  then have tr: "trace (snd (request E fallback s3)) =
               trace s1 @ replicate numOfAttempts (Fetch (api_call s1 b gated))
               @ [Warn (''Failed to enable auto-merge: '' @ m @ ''. Trying to merge immediately...''),
                  Fetch (api_call s1 b fallback)]"
    by (simp add: s3_def s2 api_call_def w_def)
  show ?thesis
    using run tr b(1) m by (simp add: merge_body_gated map_of_set_param)
qed


theorem prAutoMerge_fallback_witness:
  "fst (prAutoMerge refusing_merge (Num 12) (Str ''squash'') Undefined fresh) = Inr ()
   \<and> trace (snd (prAutoMerge refusing_merge (Num 12) (Str ''squash'') Undefined fresh)) =
       trace (snd (projectPath refusing_merge fresh))
       @ replicate 10
           (Fetch \<lparr>req_method = ''PUT'',
                   req_url = ''https://h.io/api/v4/projects/g%2Fp/merge_requests/12/merge'',
                   req_token = ''glpat'',
                   req_body = Some [(''merge_when_pipeline_succeeds'', ''true''),
                                    (''squash'', ''true'')]\<rparr>)
       @ [Warn ''Failed to enable auto-merge: Method Not Allowed. Trying to merge immediately...'',
          Fetch \<lparr>req_method = ''PUT'',
                 req_url = ''https://h.io/api/v4/projects/g%2Fp/merge_requests/12/merge'',
                 req_token = ''glpat'',
                 req_body = Some [(''merge_when_pipeline_succeeds'', ''false''),
                                  (''squash'', ''true'')]\<rparr>]"
proof -
  let ?s1 = "snd (projectPath refusing_merge fresh)"
  let ?gated = "merge_opts (merge_endpoint ''g%2Fp'' (Num 12)) (merge_body (Str ''squash'') Undefined)"
  let ?fallback = "merge_opts (merge_endpoint ''g%2Fp'' (Num 12))
                     (set_param (merge_body (Str ''squash'') Undefined)
                        ''merge_when_pipeline_succeeds'' ''false'')"
  have mode: "Str ''squash'' \<noteq> Str ''rebase''" by simp
  have pp: "projectPath refusing_merge fresh = (Inr ''g%2Fp'', ?s1)" by code_simp
  have fail: "fst (backOff (request refusing_merge ?gated) ?s1) = Inl (Error ''Method Not Allowed'')"
    by code_simp
  have base: "detectedBase ?s1 = Some ''https://h.io''" by code_simp
  have g: "api_call ?s1 ''https://h.io'' ?gated =
             \<lparr>req_method = ''PUT'',
              req_url = ''https://h.io/api/v4/projects/g%2Fp/merge_requests/12/merge'',
              req_token = ''glpat'',
              req_body = Some [(''merge_when_pipeline_succeeds'', ''true''), (''squash'', ''true'')]\<rparr>"
    by code_simp
  have f: "api_call ?s1 ''https://h.io'' ?fallback =
             \<lparr>req_method = ''PUT'',
              req_url = ''https://h.io/api/v4/projects/g%2Fp/merge_requests/12/merge'',
              req_token = ''glpat'',
              req_body = Some [(''merge_when_pipeline_succeeds'', ''false''), (''squash'', ''true'')]\<rparr>"
    by code_simp
  from prAutoMerge_fallback [OF mode pp refl refl fail] base g f
  show ?thesis by (auto simp: numOfAttempts_def)
qed


section \<open>Re-running a pipeline\<close>

lemma request_json_snd: "snd (request_json E opts s) = snd (request E opts s)"
  by (simp add: request_json_def bind_def ret_def split: prod.splits sum.splits)

lemma request_json_cached_state:
  assumes "detectedBase s = Some b" and "b \<noteq> []" and "endpoint opts = Some e" and "e \<noteq> []"
  shows "snd (request_json E opts s) = s\<lparr>trace := trace s @ [Fetch (api_call s b opts)]\<rparr>"
  by (simp add: request_json_snd request_cached_state [OF assms])

lemma pipeline_endpoints:
  "\<exists>e. endpoint (job_opts pp j) = Some e \<and> e \<noteq> []"
  "\<exists>e. endpoint (pipeline_opts pp i) = Some e \<and> e \<noteq> []"
  "\<exists>e. endpoint (cancel_opts pp i) = Some e \<and> e \<noteq> []"
  "\<exists>e. endpoint (retry_opts pp i) = Some e \<and> e \<noteq> []"
  by (simp_all add: job_opts_def pipeline_opts_def cancel_opts_def retry_opts_def opts0_def)

lemma rerunning_base: "detectedBase (snd (projectPath rerunning fresh)) = Some ''https://h.io''"
  by code_simp

text \<open>
  C6, as the claim states it, fails.  Called with only a job id from a process whose
  environment sets \<open>CI_PIPELINE_ID\<close>, \<open>pipelineRerun\<close> does not look the job up: it
  re-runs the pipeline of the environment.  And when the pipeline is running and the
  remote refuses the cancellation, the call fails there and no retry request is issued.
\<close>

theorem pipelineRerun_sequence_counterexample:
  "pipelineRerun in_ci Undefined (Num 5) fresh =
     (Inr (),
      fresh\<lparr>detectedBase := Some ''https://h.io'',
            trace := [get_req ''https://h.io/api/v4/version'',
                      get_req ''https://h.io/g/api/v4/version'',
                      get_req ''https://h.io/api/v4/projects/g%2Fp/pipelines/77'',
                      post_req ''https://h.io/api/v4/projects/g%2Fp/pipelines/77/retry'']\<rparr>)
   \<and> pipelineRerun uncancellable Undefined (Num 5) fresh =
     (Inl (Error ''Forbidden''),
      fresh\<lparr>detectedBase := Some ''https://h.io'',
            trace := [get_req ''https://h.io/api/v4/version'',
                      get_req ''https://h.io/g/api/v4/version'',
                      get_req ''https://h.io/api/v4/projects/g%2Fp/jobs/5'',
                      get_req ''https://h.io/api/v4/projects/g%2Fp/pipelines/9'',
                      post_req ''https://h.io/api/v4/projects/g%2Fp/pipelines/9/cancel'']\<rparr>)"
  by code_simp

lemma pipelineRerun_from:
  "pipelineRerun E i jobId =
     bind (projectPath E)
       (\<lambda>pp. bind (if \<not> truthy (default_id E i) \<and> truthy jobId
                    then bind (request_json E (job_opts pp jobId))
                           (\<lambda>job. bind (lift (get_prop job ''pipeline''))
                                    (\<lambda>pipeline. lift (get_prop pipeline ''id'')))
                    else ret (default_id E i))
               (rerun_from E pp))"
  unfolding pipelineRerun_def rerun_from_def ..

lemma request_json_fst:
  "fst (request_json E opts s) = (case fst (request E opts s) of Inl e \<Rightarrow> Inl e | Inr r \<Rightarrow> Inr (payload r))"
  by (simp add: request_json_def bind_def ret_def split: prod.splits sum.splits)

lemma retry_step:
  assumes "detectedBase s = Some b" and "b \<noteq> []"
  shows "fst (bind (request E (retry_opts pp pid)) (\<lambda>_. ret ()) s)
           = (case fst (request E (retry_opts pp pid) s) of Inl e \<Rightarrow> Inl e | Inr x \<Rightarrow> Inr ())
       \<and> trace (snd (bind (request E (retry_opts pp pid)) (\<lambda>_. ret ()) s))
           = trace s @ [Fetch (api_call s b (retry_opts pp pid))]"
proof -
  obtain er where er: "endpoint (retry_opts pp pid) = Some er" "er \<noteq> []"
    using pipeline_endpoints(4) by blast
  have "snd (bind (request E (retry_opts pp pid)) (\<lambda>_. ret ()) s) = snd (request E (retry_opts pp pid) s)"
    by (simp add: bind_def ret_def split: prod.splits sum.splits)
  then have "trace (snd (bind (request E (retry_opts pp pid)) (\<lambda>_. ret ()) s))
               = trace s @ [Fetch (api_call s b (retry_opts pp pid))]"
    by (simp add: request_cached_state [OF assms er])
  moreover have "fst (bind (request E (retry_opts pp pid)) (\<lambda>_. ret ()) s)
           = (case fst (request E (retry_opts pp pid) s) of Inl e \<Rightarrow> Inl e | Inr x \<Rightarrow> Inr ())"
    by (simp add: bind_def ret_def split: prod.splits sum.splits)
  ultimately show ?thesis by simp
qed

lemma rerun_from_lookup_fails:
  assumes "detectedBase s2 = Some b" and "b \<noteq> []"
    and "fst (request_json E (pipeline_opts pp pid) s2) = Inl e"
  shows "fst (rerun_from E pp pid s2) = Inl e
       \<and> trace (snd (rerun_from E pp pid s2)) = trace s2 @ [Fetch (api_call s2 b (pipeline_opts pp pid))]"
proof -
  obtain ep where ep: "endpoint (pipeline_opts pp pid) = Some ep" "ep \<noteq> []"
    using pipeline_endpoints(2) by blast
  obtain s3 where r: "request_json E (pipeline_opts pp pid) s2 = (Inl e, s3)"
    using assms(3) by (cases "request_json E (pipeline_opts pp pid) s2") simp
  then have "s3 = snd (request_json E (pipeline_opts pp pid) s2)" by simp
  then have "s3 = s2\<lparr>trace := trace s2 @ [Fetch (api_call s2 b (pipeline_opts pp pid))]\<rparr>"
    by (simp add: request_json_cached_state [OF assms(1,2) ep])
  moreover have "rerun_from E pp pid s2 = (Inl e, s3)"
    using r by (simp add: rerun_from_def bind_def)
  ultimately show ?thesis by simp
qed

lemma rerun_from_status:
  assumes "detectedBase s2 = Some b" and "b \<noteq> []"
    and "request_json E (pipeline_opts pp pid) s2 = (Inr p, s3)"
    and "get_prop p ''status'' = Inr st"
  shows "s3 = s2\<lparr>trace := trace s2 @ [Fetch (api_call s2 b (pipeline_opts pp pid))]\<rparr>"
    and "rerun_from E pp pid s2 =
           bind (if st = Str ''running''
                 then bind (request E (cancel_opts pp pid)) (\<lambda>_. ret ())
                 else ret ())
             (\<lambda>_. bind (request E (retry_opts pp pid)) (\<lambda>_. ret ())) s3"
proof -
  obtain ep where ep: "endpoint (pipeline_opts pp pid) = Some ep" "ep \<noteq> []"
    using pipeline_endpoints(2) by blast
  have "s3 = snd (request_json E (pipeline_opts pp pid) s2)" by (simp add: assms(3))
  then show "s3 = s2\<lparr>trace := trace s2 @ [Fetch (api_call s2 b (pipeline_opts pp pid))]\<rparr>"
    by (simp add: request_json_cached_state [OF assms(1,2) ep])
  define K where "K = (\<lambda>status'.
             bind (if status' = Str ''running''
                   then bind (request E (cancel_opts pp pid)) (\<lambda>_. ret ())
                   else ret ())
               (\<lambda>_. bind (request E (retry_opts pp pid)) (\<lambda>_. ret ())))"
  have "rerun_from E pp pid s2 =
          bind (request_json E (pipeline_opts pp pid))
            (\<lambda>pipeline. bind (lift (get_prop pipeline ''status'')) K) s2"
    by (simp add: rerun_from_def K_def)
  also have "\<dots> = K st s3"
    using assms(3,4) by (simp add: bind_def lift_def)
  finally show "rerun_from E pp pid s2 =
           bind (if st = Str ''running''
                 then bind (request E (cancel_opts pp pid)) (\<lambda>_. ret ())
                 else ret ())
             (\<lambda>_. bind (request E (retry_opts pp pid)) (\<lambda>_. ret ())) s3"
    by (simp add: K_def)
qed

lemma rerun_from_not_running:
  assumes "detectedBase s2 = Some b" and "b \<noteq> []"
    and "request_json E (pipeline_opts pp pid) s2 = (Inr p, s3)"
    and "get_prop p ''status'' = Inr st" and "st \<noteq> Str ''running''"
  shows "fst (rerun_from E pp pid s2)
           = (case fst (request E (retry_opts pp pid) s3) of Inl e \<Rightarrow> Inl e | Inr x \<Rightarrow> Inr ())
       \<and> trace (snd (rerun_from E pp pid s2))
           = trace s2 @ [Fetch (api_call s2 b (pipeline_opts pp pid)),
                         Fetch (api_call s2 b (retry_opts pp pid))]"
proof -
  note st = rerun_from_status [OF assms(1-4)]
  have d3: "detectedBase s3 = Some b" by (simp add: st(1) assms(1))
  have "rerun_from E pp pid s2 = bind (request E (retry_opts pp pid)) (\<lambda>_. ret ()) s3"
    using assms(5) by (simp add: st(2) bind_def [of "ret ()"] ret_def)
  with retry_step [OF d3 assms(2), of E pp pid] show ?thesis
    by (simp add: st(1))
qed

lemma rerun_from_cancel_fails:
  assumes "detectedBase s2 = Some b" and "b \<noteq> []"
    and "request_json E (pipeline_opts pp pid) s2 = (Inr p, s3)"
    and "get_prop p ''status'' = Inr (Str ''running'')"
    and "fst (request E (cancel_opts pp pid) s3) = Inl e"
  shows "fst (rerun_from E pp pid s2) = Inl e
       \<and> trace (snd (rerun_from E pp pid s2))
           = trace s2 @ [Fetch (api_call s2 b (pipeline_opts pp pid)),
                         Fetch (api_call s2 b (cancel_opts pp pid))]"
proof -
  note st = rerun_from_status [OF assms(1-4)]
  have d3: "detectedBase s3 = Some b" by (simp add: st(1) assms(1))
  obtain ec where ec: "endpoint (cancel_opts pp pid) = Some ec" "ec \<noteq> []"
    using pipeline_endpoints(3) by blast
  obtain s4 where c: "request E (cancel_opts pp pid) s3 = (Inl e, s4)"
    using assms(5) by (cases "request E (cancel_opts pp pid) s3") simp
  then have "s4 = snd (request E (cancel_opts pp pid) s3)" by simp
  then have s4: "s4 = s3\<lparr>trace := trace s3 @ [Fetch (api_call s3 b (cancel_opts pp pid))]\<rparr>"
    by (simp add: request_cached_state [OF d3 assms(2) ec])
  have "rerun_from E pp pid s2 = (Inl e, s4)"
    using c by (simp add: st(2) bind_def)
  then show ?thesis by (simp add: s4 st(1))
qed

lemma rerun_from_cancelled:
  assumes "detectedBase s2 = Some b" and "b \<noteq> []"
    and "request_json E (pipeline_opts pp pid) s2 = (Inr p, s3)"
    and "get_prop p ''status'' = Inr (Str ''running'')"
    and "fst (request E (cancel_opts pp pid) s3) = Inr c"
  shows "fst (rerun_from E pp pid s2)
           = (case fst (request E (retry_opts pp pid) (snd (request E (cancel_opts pp pid) s3))) of
                Inl e \<Rightarrow> Inl e | Inr x \<Rightarrow> Inr ())
       \<and> trace (snd (rerun_from E pp pid s2))
           = trace s2 @ [Fetch (api_call s2 b (pipeline_opts pp pid)),
                         Fetch (api_call s2 b (cancel_opts pp pid)),
                         Fetch (api_call s2 b (retry_opts pp pid))]"
proof -
  note st = rerun_from_status [OF assms(1-4)]
  have d3: "detectedBase s3 = Some b" by (simp add: st(1) assms(1))
  obtain ec where ec: "endpoint (cancel_opts pp pid) = Some ec" "ec \<noteq> []"
    using pipeline_endpoints(3) by blast
  define s4 where "s4 = snd (request E (cancel_opts pp pid) s3)"
  have c: "request E (cancel_opts pp pid) s3 = (Inr c, s4)"
    using assms(5) by (cases "request E (cancel_opts pp pid) s3") (simp add: s4_def)
  have s4: "s4 = s3\<lparr>trace := trace s3 @ [Fetch (api_call s3 b (cancel_opts pp pid))]\<rparr>"
    by (simp add: s4_def request_cached_state [OF d3 assms(2) ec])
  have d4: "detectedBase s4 = Some b" by (simp add: s4 d3)
  have tr4: "trace s4 = trace s2 @ [Fetch (api_call s2 b (pipeline_opts pp pid)),
                                    Fetch (api_call s2 b (cancel_opts pp pid))]"
    by (simp add: s4 st(1))
  have ac: "api_call s4 b (retry_opts pp pid) = api_call s2 b (retry_opts pp pid)"
    by (simp add: s4 st(1))
  have run: "rerun_from E pp pid s2 = bind (request E (retry_opts pp pid)) (\<lambda>_. ret ()) s4"
    using c by (simp add: st(2) bind_def [of "bind (request E (cancel_opts pp pid)) (\<lambda>_. ret ())"]
                          bind_def [of "request E (cancel_opts pp pid)"] ret_def)
  from retry_step [OF d4 assms(2), of E pp pid]
  have "fst (rerun_from E pp pid s2)
           = (case fst (request E (retry_opts pp pid) s4) of Inl e \<Rightarrow> Inl e | Inr x \<Rightarrow> Inr ())
       \<and> trace (snd (rerun_from E pp pid s2))
           = trace s2 @ [Fetch (api_call s2 b (pipeline_opts pp pid)),
                         Fetch (api_call s2 b (cancel_opts pp pid)),
                         Fetch (api_call s2 b (retry_opts pp pid))]"
    unfolding run tr4 ac by simp
  then show ?thesis unfolding s4_def .
qed


lemma api_call_token: "token s' = token s \<Longrightarrow> api_call s' b opts = api_call s b opts"
  by (simp add: api_call_def fetch_args_def)

lemma default_id_unset:
  "\<not> truthy_str (CI_PIPELINE_ID E) \<Longrightarrow> \<not> truthy (default_id E Undefined)"
  by (cases "CI_PIPELINE_ID E") (simp_all add: default_id_def)

lemma default_id_set:
  "CI_PIPELINE_ID E = Some v \<Longrightarrow> v \<noteq> [] \<Longrightarrow>
   default_id E Undefined = Str v \<and> truthy (default_id E Undefined)"
  by (simp add: default_id_def)

lemma in_ci_base: "detectedBase (snd (projectPath in_ci fresh)) = Some ''https://h.io''"
  by code_simp

lemma uncancellable_base: "detectedBase (snd (projectPath uncancellable fresh)) = Some ''https://h.io''"
  by code_simp

text \<open>
  C6, amended.  For a call of \<open>pipelineRerun\<close> with only a (truthy) job id, once the
  project path is resolved (the base is cached then):

  \<^item> when \<open>CI_PIPELINE_ID\<close> is unset or empty, the job is looked up first; if that request
    fails, the call fails with its error and nothing more is requested; otherwise the id
    of the job's parent pipeline, read from the answer, is the pipeline id;
  \<^item> when \<open>CI_PIPELINE_ID\<close> is a non-empty string, that string is the pipeline id and the
    job is not looked up;
  \<^item> then the pipeline is looked up; if that request fails, the call fails with its error
    and nothing more is requested; otherwise, with the status read from the answer, a
    cancel request is issued if and only if the status is \<open>'running'\<close>, before the retry
    request, and when the cancel request fails the call fails with its error and no retry
    request is issued;
  \<^item> in every other case the retry request is issued last (a \<open>'failed'\<close> pipeline gets
    only the retry request), and the call fails exactly when the retry request fails.

  In the statement \<open>s1\<close> is the session after the project path, \<open>s2\<close> the session in
  which the pipeline is looked up (\<open>s1\<close>, or the session after the job lookup) and \<open>s3\<close>
  the session after the pipeline lookup.
\<close>

theorem pipelineRerun_sequence:
  assumes "truthy jobId" and "projectPath E s = (Inr pp, s1)"
    and "run = pipelineRerun E Undefined jobId s"
  shows "(\<exists>b. detectedBase s1 = Some b)
     \<and> (\<forall>b. detectedBase s1 = Some b \<longrightarrow>
       (\<forall>e. \<not> truthy_str (CI_PIPELINE_ID E) \<longrightarrow>
              fst (request_json E (job_opts pp jobId) s1) = Inl e \<longrightarrow>
              fst run = Inl e
              \<and> trace (snd run) = trace s1 @ [Fetch (api_call s1 b (job_opts pp jobId))])
     \<and> (\<forall>job s2. \<not> truthy_str (CI_PIPELINE_ID E) \<longrightarrow>
              request_json E (job_opts pp jobId) s1 = (Inr job, s2) \<longrightarrow>
              trace s2 = trace s1 @ [Fetch (api_call s1 b (job_opts pp jobId))])
     \<and> (\<forall>pid s2.
           ((\<exists>v. CI_PIPELINE_ID E = Some v \<and> v \<noteq> [] \<and> pid = Str v \<and> s2 = s1)
            \<or> (\<not> truthy_str (CI_PIPELINE_ID E)
                \<and> (\<exists>job pl. request_json E (job_opts pp jobId) s1 = (Inr job, s2)
                      \<and> get_prop job ''pipeline'' = Inr pl \<and> get_prop pl ''id'' = Inr pid)))
           \<longrightarrow>
           (\<forall>e. fst (request_json E (pipeline_opts pp pid) s2) = Inl e \<longrightarrow>
                fst run = Inl e
                \<and> trace (snd run) = trace s2 @ [Fetch (api_call s1 b (pipeline_opts pp pid))])
           \<and> (\<forall>p s3 st.
                 request_json E (pipeline_opts pp pid) s2 = (Inr p, s3)
                 \<and> get_prop p ''status'' = Inr st \<longrightarrow>
                 (st \<noteq> Str ''running'' \<longrightarrow>
                    fst run = (case fst (request E (retry_opts pp pid) s3) of
                                 Inl e \<Rightarrow> Inl e | Inr x \<Rightarrow> Inr ())
                    \<and> trace (snd run) = trace s2 @ [Fetch (api_call s1 b (pipeline_opts pp pid)),
                                                      Fetch (api_call s1 b (retry_opts pp pid))])
                 \<and> (st = Str ''running'' \<longrightarrow>
                      (\<forall>e. fst (request E (cancel_opts pp pid) s3) = Inl e \<longrightarrow>
                           fst run = Inl e
                           \<and> trace (snd run) = trace s2 @ [Fetch (api_call s1 b (pipeline_opts pp pid)),
                                                             Fetch (api_call s1 b (cancel_opts pp pid))])
                      \<and> (\<forall>c. fst (request E (cancel_opts pp pid) s3) = Inr c \<longrightarrow>
                           fst run = (case fst (request E (retry_opts pp pid)
                                                  (snd (request E (cancel_opts pp pid) s3))) of
                                        Inl e \<Rightarrow> Inl e | Inr x \<Rightarrow> Inr ())
                           \<and> trace (snd run) = trace s2 @ [Fetch (api_call s1 b (pipeline_opts pp pid)),
                                                             Fetch (api_call s1 b (cancel_opts pp pid)),
                                                             Fetch (api_call s1 b (retry_opts pp pid))])))))"
proof (rule conjI; (intro allI impI)?)
  show "\<exists>b. detectedBase s1 = Some b"
    using projectPath_Inr [OF assms(2)] by blast
next
  fix b assume "detectedBase s1 = Some b"
  with projectPath_Inr [OF assms(2)] have b: "detectedBase s1 = Some b" "b \<noteq> []"
    by auto
  obtain ej where ej: "endpoint (job_opts pp jobId) = Some ej" "ej \<noteq> []"
    using pipeline_endpoints(1) by blast
  let ?J = "Fetch (api_call s1 b (job_opts pp jobId))"
  define lookup where "lookup = bind (request_json E (job_opts pp jobId))
                           (\<lambda>job. bind (lift (get_prop job ''pipeline''))
                                    (\<lambda>pipeline. lift (get_prop pipeline ''id'')))"
  have run: "run = bind (if \<not> truthy (default_id E Undefined) \<and> truthy jobId
                         then lookup else ret (default_id E Undefined))
                     (rerun_from E pp) s1"
    using assms(2) by (simp add: assms(3) pipelineRerun_from bind_def [of "projectPath E"] lookup_def)
  have job_state: "snd (request_json E (job_opts pp jobId) s1) = s1\<lparr>trace := trace s1 @ [?J]\<rparr>"
    by (rule request_json_cached_state [OF b ej])
  have tail: "(\<forall>e. fst (request_json E (pipeline_opts pp pid) s2) = Inl e \<longrightarrow>
                fst run = Inl e
                \<and> trace (snd run) = trace s2 @ [Fetch (api_call s1 b (pipeline_opts pp pid))])
           \<and> (\<forall>p s3 st.
                 request_json E (pipeline_opts pp pid) s2 = (Inr p, s3)
                 \<and> get_prop p ''status'' = Inr st \<longrightarrow>
                 (st \<noteq> Str ''running'' \<longrightarrow>
                    fst run = (case fst (request E (retry_opts pp pid) s3) of
                                 Inl e \<Rightarrow> Inl e | Inr x \<Rightarrow> Inr ())
                    \<and> trace (snd run) = trace s2 @ [Fetch (api_call s1 b (pipeline_opts pp pid)),
                                                      Fetch (api_call s1 b (retry_opts pp pid))])
                 \<and> (st = Str ''running'' \<longrightarrow>
                      (\<forall>e. fst (request E (cancel_opts pp pid) s3) = Inl e \<longrightarrow>
                           fst run = Inl e
                           \<and> trace (snd run) = trace s2 @ [Fetch (api_call s1 b (pipeline_opts pp pid)),
                                                             Fetch (api_call s1 b (cancel_opts pp pid))])
                      \<and> (\<forall>c. fst (request E (cancel_opts pp pid) s3) = Inr c \<longrightarrow>
                           fst run = (case fst (request E (retry_opts pp pid)
                                                  (snd (request E (cancel_opts pp pid) s3))) of
                                        Inl e \<Rightarrow> Inl e | Inr x \<Rightarrow> Inr ())
                           \<and> trace (snd run) = trace s2 @ [Fetch (api_call s1 b (pipeline_opts pp pid)),
                                                             Fetch (api_call s1 b (cancel_opts pp pid)),
                                                             Fetch (api_call s1 b (retry_opts pp pid))])))"
    if eq: "run = rerun_from E pp pid s2" and d2: "detectedBase s2 = Some b"
      and tok: "token s2 = token s1" for pid s2
  proof -
    have ac: "api_call s2 b opts = api_call s1 b opts" for opts
      by (rule api_call_token [OF tok])
    show ?thesis
      unfolding eq
      using rerun_from_lookup_fails [OF d2 b(2), of E pp pid]
            rerun_from_not_running [OF d2 b(2), of E pp pid]
            rerun_from_cancel_fails [OF d2 b(2), of E pp pid]
            rerun_from_cancelled [OF d2 b(2), of E pp pid]
      by (simp add: ac)
  qed
  have A: "fst run = Inl e \<and> trace (snd run) = trace s1 @ [?J]"
    if unset: "\<not> truthy_str (CI_PIPELINE_ID E)"
      and fails: "fst (request_json E (job_opts pp jobId) s1) = Inl e" for e
  proof -
    obtain s2 where r: "request_json E (job_opts pp jobId) s1 = (Inl e, s2)"
      using fails by (cases "request_json E (job_opts pp jobId) s1") simp
    then have "s2 = s1\<lparr>trace := trace s1 @ [?J]\<rparr>" using job_state by simp
    moreover have "run = (Inl e, s2)"
      using r default_id_unset [OF unset] assms(1)
      by (simp add: run lookup_def bind_def)
    ultimately show ?thesis by simp
  qed
  have B: "trace s2 = trace s1 @ [?J]"
    if "request_json E (job_opts pp jobId) s1 = (Inr job, s2)" for job s2
    using that job_state by simp
  have C1: "run = rerun_from E pp (Str v) s1" if "CI_PIPELINE_ID E = Some v" and "v \<noteq> []" for v
    using default_id_set [OF that] that(2) by (simp add: run bind_def ret_def)
  have C2: "run = rerun_from E pp pid s2 \<and> detectedBase s2 = Some b \<and> token s2 = token s1"
    if "\<not> truthy_str (CI_PIPELINE_ID E)"
      and "request_json E (job_opts pp jobId) s1 = (Inr job, s2)"
      and "get_prop job ''pipeline'' = Inr pl" and "get_prop pl ''id'' = Inr pid" for job pl pid s2
  proof -
    have "s2 = s1\<lparr>trace := trace s1 @ [?J]\<rparr>" using that(2) job_state by simp
    then have "detectedBase s2 = Some b \<and> token s2 = token s1" by (simp add: b)
    moreover have "lookup s1 = (Inr pid, s2)"
      using that(2,3,4) by (simp add: lookup_def bind_def lift_def)
    then have "run = rerun_from E pp pid s2"
      using default_id_unset [OF that(1)] assms(1) by (simp add: run bind_def)
    ultimately show ?thesis by simp
  qed
  show "(\<forall>e. \<not> truthy_str (CI_PIPELINE_ID E) \<longrightarrow>
              fst (request_json E (job_opts pp jobId) s1) = Inl e \<longrightarrow>
              fst run = Inl e
              \<and> trace (snd run) = trace s1 @ [Fetch (api_call s1 b (job_opts pp jobId))])
     \<and> (\<forall>job s2. \<not> truthy_str (CI_PIPELINE_ID E) \<longrightarrow>
              request_json E (job_opts pp jobId) s1 = (Inr job, s2) \<longrightarrow>
              trace s2 = trace s1 @ [Fetch (api_call s1 b (job_opts pp jobId))])
     \<and> (\<forall>pid s2.
           ((\<exists>v. CI_PIPELINE_ID E = Some v \<and> v \<noteq> [] \<and> pid = Str v \<and> s2 = s1)
            \<or> (\<not> truthy_str (CI_PIPELINE_ID E)
                \<and> (\<exists>job pl. request_json E (job_opts pp jobId) s1 = (Inr job, s2)
                      \<and> get_prop job ''pipeline'' = Inr pl \<and> get_prop pl ''id'' = Inr pid)))
           \<longrightarrow>
           (\<forall>e. fst (request_json E (pipeline_opts pp pid) s2) = Inl e \<longrightarrow>
                fst run = Inl e
                \<and> trace (snd run) = trace s2 @ [Fetch (api_call s1 b (pipeline_opts pp pid))])
           \<and> (\<forall>p s3 st.
                 request_json E (pipeline_opts pp pid) s2 = (Inr p, s3)
                 \<and> get_prop p ''status'' = Inr st \<longrightarrow>
                 (st \<noteq> Str ''running'' \<longrightarrow>
                    fst run = (case fst (request E (retry_opts pp pid) s3) of
                                 Inl e \<Rightarrow> Inl e | Inr x \<Rightarrow> Inr ())
                    \<and> trace (snd run) = trace s2 @ [Fetch (api_call s1 b (pipeline_opts pp pid)),
                                                      Fetch (api_call s1 b (retry_opts pp pid))])
                 \<and> (st = Str ''running'' \<longrightarrow>
                      (\<forall>e. fst (request E (cancel_opts pp pid) s3) = Inl e \<longrightarrow>
                           fst run = Inl e
                           \<and> trace (snd run) = trace s2 @ [Fetch (api_call s1 b (pipeline_opts pp pid)),
                                                             Fetch (api_call s1 b (cancel_opts pp pid))])
                      \<and> (\<forall>c. fst (request E (cancel_opts pp pid) s3) = Inr c \<longrightarrow>
                           fst run = (case fst (request E (retry_opts pp pid)
                                                  (snd (request E (cancel_opts pp pid) s3))) of
                                        Inl e \<Rightarrow> Inl e | Inr x \<Rightarrow> Inr ())
                           \<and> trace (snd run) = trace s2 @ [Fetch (api_call s1 b (pipeline_opts pp pid)),
                                                             Fetch (api_call s1 b (cancel_opts pp pid)),
                                                             Fetch (api_call s1 b (retry_opts pp pid))]))))"
  proof (intro conjI allI impI)
    fix e assume "\<not> truthy_str (CI_PIPELINE_ID E)" "fst (request_json E (job_opts pp jobId) s1) = Inl e"
    from A [OF this] show "fst run = Inl e" "trace (snd run) = trace s1 @ [?J]" by simp_all
  qed (insert B C1 C2 tail b, blast+)
qed



theorem pipelineRerun_sequence_witness:
  "trace (snd (pipelineRerun rerunning Undefined (Num 5) fresh)) =
     trace (snd (projectPath rerunning fresh))
     @ [get_req ''https://h.io/api/v4/projects/g%2Fp/jobs/5'',
        get_req ''https://h.io/api/v4/projects/g%2Fp/pipelines/9'',
        post_req ''https://h.io/api/v4/projects/g%2Fp/pipelines/9/cancel'',
        post_req ''https://h.io/api/v4/projects/g%2Fp/pipelines/9/retry'']
   \<and> trace (snd (pipelineRerun rerunning Undefined (Num 6) fresh)) =
     trace (snd (projectPath rerunning fresh))
     @ [get_req ''https://h.io/api/v4/projects/g%2Fp/jobs/6'',
        get_req ''https://h.io/api/v4/projects/g%2Fp/pipelines/77'',
        post_req ''https://h.io/api/v4/projects/g%2Fp/pipelines/77/retry'']
   \<and> trace (snd (pipelineRerun in_ci Undefined (Num 5) fresh)) =
     trace (snd (projectPath in_ci fresh))
     @ [get_req ''https://h.io/api/v4/projects/g%2Fp/pipelines/77'',
        post_req ''https://h.io/api/v4/projects/g%2Fp/pipelines/77/retry'']
   \<and> fst (pipelineRerun uncancellable Undefined (Num 5) fresh) = Inl (Error ''Forbidden'')
   \<and> trace (snd (pipelineRerun uncancellable Undefined (Num 5) fresh)) =
     trace (snd (projectPath uncancellable fresh))
     @ [get_req ''https://h.io/api/v4/projects/g%2Fp/jobs/5'',
        get_req ''https://h.io/api/v4/projects/g%2Fp/pipelines/9'',
        post_req ''https://h.io/api/v4/projects/g%2Fp/pipelines/9/cancel'']
   \<and> fst (pipelineRerun rerunning Undefined (Num 8) fresh) = Inl (Error ''Not Found'')
   \<and> trace (snd (pipelineRerun rerunning Undefined (Num 8) fresh)) =
     trace (snd (projectPath rerunning fresh))
     @ [get_req ''https://h.io/api/v4/projects/g%2Fp/jobs/8'']
   \<and> fst (pipelineRerun rerunning Undefined (Num 7) fresh) = Inl (Error ''Not Found'')
   \<and> trace (snd (pipelineRerun rerunning Undefined (Num 7) fresh)) =
     trace (snd (projectPath rerunning fresh))
     @ [get_req ''https://h.io/api/v4/projects/g%2Fp/jobs/7'',
        get_req ''https://h.io/api/v4/projects/g%2Fp/pipelines/11'']"
proof -
  let ?r1 = "snd (projectPath rerunning fresh)"
  let ?c1 = "snd (projectPath in_ci fresh)"
  let ?u1 = "snd (projectPath uncancellable fresh)"
  let ?b = "''https://h.io''"
  have unset_r: "\<not> truthy_str (CI_PIPELINE_ID rerunning)"
    and unset_u: "\<not> truthy_str (CI_PIPELINE_ID uncancellable)"
    and set_c: "CI_PIPELINE_ID in_ci = Some ''77''" by code_simp+
  have j5: "truthy (Num 5)" and j6: "truthy (Num 6)" and j7: "truthy (Num 7)"
    and j8: "truthy (Num 8)" by simp_all
  have pp_r: "projectPath rerunning fresh = (Inr ''g%2Fp'', ?r1)"
    and pp_c: "projectPath in_ci fresh = (Inr ''g%2Fp'', ?c1)"
    and pp_u: "projectPath uncancellable fresh = (Inr ''g%2Fp'', ?u1)" by code_simp+
  have urls:
    "Fetch (api_call ?r1 ?b (job_opts ''g%2Fp'' (Num 5))) = get_req ''https://h.io/api/v4/projects/g%2Fp/jobs/5''"
    "Fetch (api_call ?r1 ?b (job_opts ''g%2Fp'' (Num 6))) = get_req ''https://h.io/api/v4/projects/g%2Fp/jobs/6''"
    "Fetch (api_call ?r1 ?b (job_opts ''g%2Fp'' (Num 7))) = get_req ''https://h.io/api/v4/projects/g%2Fp/jobs/7''"
    "Fetch (api_call ?r1 ?b (job_opts ''g%2Fp'' (Num 8))) = get_req ''https://h.io/api/v4/projects/g%2Fp/jobs/8''"
    "Fetch (api_call ?r1 ?b (pipeline_opts ''g%2Fp'' (Num 9))) = get_req ''https://h.io/api/v4/projects/g%2Fp/pipelines/9''"
    "Fetch (api_call ?r1 ?b (pipeline_opts ''g%2Fp'' (Num 77))) = get_req ''https://h.io/api/v4/projects/g%2Fp/pipelines/77''"
    "Fetch (api_call ?r1 ?b (pipeline_opts ''g%2Fp'' (Num 11))) = get_req ''https://h.io/api/v4/projects/g%2Fp/pipelines/11''"
    "Fetch (api_call ?r1 ?b (cancel_opts ''g%2Fp'' (Num 9))) = post_req ''https://h.io/api/v4/projects/g%2Fp/pipelines/9/cancel''"
    "Fetch (api_call ?r1 ?b (retry_opts ''g%2Fp'' (Num 9))) = post_req ''https://h.io/api/v4/projects/g%2Fp/pipelines/9/retry''"
    "Fetch (api_call ?r1 ?b (retry_opts ''g%2Fp'' (Num 77))) = post_req ''https://h.io/api/v4/projects/g%2Fp/pipelines/77/retry''"
    "Fetch (api_call ?c1 ?b (pipeline_opts ''g%2Fp'' (Str ''77''))) = get_req ''https://h.io/api/v4/projects/g%2Fp/pipelines/77''"
    "Fetch (api_call ?c1 ?b (retry_opts ''g%2Fp'' (Str ''77''))) = post_req ''https://h.io/api/v4/projects/g%2Fp/pipelines/77/retry''"
    "Fetch (api_call ?u1 ?b (job_opts ''g%2Fp'' (Num 5))) = get_req ''https://h.io/api/v4/projects/g%2Fp/jobs/5''"
    "Fetch (api_call ?u1 ?b (pipeline_opts ''g%2Fp'' (Num 9))) = get_req ''https://h.io/api/v4/projects/g%2Fp/pipelines/9''"
    "Fetch (api_call ?u1 ?b (cancel_opts ''g%2Fp'' (Num 9))) = post_req ''https://h.io/api/v4/projects/g%2Fp/pipelines/9/cancel''"
    by code_simp+
  note R = pipelineRerun_sequence [THEN conjunct2, rule_format]

  \<comment> \<open>job 5 on a running pipeline that lets itself be cancelled\<close>
  let ?job5 = "Obj [(''id'', Num 5), (''pipeline'', Obj [(''id'', Num 9)])]"
  let ?p9 = "Obj [(''id'', Num 9), (''status'', Str ''running'')]"
  let ?r2 = "snd (request_json rerunning (job_opts ''g%2Fp'' (Num 5)) ?r1)"
  let ?r3 = "snd (request_json rerunning (pipeline_opts ''g%2Fp'' (Num 9)) ?r2)"
  have a1: "request_json rerunning (job_opts ''g%2Fp'' (Num 5)) ?r1 = (Inr ?job5, ?r2)" by code_simp
  have a4: "request_json rerunning (pipeline_opts ''g%2Fp'' (Num 9)) ?r2 = (Inr ?p9, ?r3)" by code_simp
  have a5: "get_prop ?p9 ''status'' = Inr (Str ''running'')" by simp
  have a6: "fst (request rerunning (cancel_opts ''g%2Fp'' (Num 9)) ?r3)
            = Inr (Parsed (Obj [(''id'', Num 9), (''status'', Str ''canceled'')]))" by code_simp
  have m5: "(\<exists>v. CI_PIPELINE_ID rerunning = Some v \<and> v \<noteq> [] \<and> Num 9 = Str v \<and> ?r2 = ?r1)
            \<or> (\<not> truthy_str (CI_PIPELINE_ID rerunning)
                \<and> (\<exists>job pl. request_json rerunning (job_opts ''g%2Fp'' (Num 5)) ?r1 = (Inr job, ?r2)
                      \<and> get_prop job ''pipeline'' = Inr pl \<and> get_prop pl ''id'' = Inr (Num 9)))"
    using unset_r a1 by auto
  note H5 = R [OF j5 pp_r refl rerunning_base]
  note B5 = H5 [THEN conjunct2, THEN conjunct1, rule_format, OF unset_r a1]
  note T5 = H5 [THEN conjunct2, THEN conjunct2, rule_format, OF m5, THEN conjunct2, rule_format,
                OF conjI [OF a4 a5], THEN conjunct2, THEN mp, OF refl, THEN conjunct2, rule_format, OF a6]
  have w1: "trace (snd (pipelineRerun rerunning Undefined (Num 5) fresh)) =
     trace ?r1
     @ [get_req ''https://h.io/api/v4/projects/g%2Fp/jobs/5'',
        get_req ''https://h.io/api/v4/projects/g%2Fp/pipelines/9'',
        post_req ''https://h.io/api/v4/projects/g%2Fp/pipelines/9/cancel'',
        post_req ''https://h.io/api/v4/projects/g%2Fp/pipelines/9/retry'']"
    using T5 [THEN conjunct2] B5 by (simp add: urls)

  \<comment> \<open>job 6 on a failed pipeline\<close>
  let ?job6 = "Obj [(''id'', Num 6), (''pipeline'', Obj [(''id'', Num 77)])]"
  let ?p77 = "Obj [(''id'', Num 77), (''status'', Str ''failed'')]"
  let ?f2 = "snd (request_json rerunning (job_opts ''g%2Fp'' (Num 6)) ?r1)"
  let ?f3 = "snd (request_json rerunning (pipeline_opts ''g%2Fp'' (Num 77)) ?f2)"
  have b1: "request_json rerunning (job_opts ''g%2Fp'' (Num 6)) ?r1 = (Inr ?job6, ?f2)" by code_simp
  have b4: "request_json rerunning (pipeline_opts ''g%2Fp'' (Num 77)) ?f2 = (Inr ?p77, ?f3)" by code_simp
  have b5: "get_prop ?p77 ''status'' = Inr (Str ''failed'')" by simp
  have nr: "Str ''failed'' \<noteq> Str ''running''" by simp
  have m6: "(\<exists>v. CI_PIPELINE_ID rerunning = Some v \<and> v \<noteq> [] \<and> Num 77 = Str v \<and> ?f2 = ?r1)
            \<or> (\<not> truthy_str (CI_PIPELINE_ID rerunning)
                \<and> (\<exists>job pl. request_json rerunning (job_opts ''g%2Fp'' (Num 6)) ?r1 = (Inr job, ?f2)
                      \<and> get_prop job ''pipeline'' = Inr pl \<and> get_prop pl ''id'' = Inr (Num 77)))"
    using unset_r b1 by auto
  note H6 = R [OF j6 pp_r refl rerunning_base]
  note B6 = H6 [THEN conjunct2, THEN conjunct1, rule_format, OF unset_r b1]
  note T6 = H6 [THEN conjunct2, THEN conjunct2, rule_format, OF m6, THEN conjunct2, rule_format,
                OF conjI [OF b4 b5], THEN conjunct1, THEN mp, OF nr]
  have w2: "trace (snd (pipelineRerun rerunning Undefined (Num 6) fresh)) =
     trace ?r1
     @ [get_req ''https://h.io/api/v4/projects/g%2Fp/jobs/6'',
        get_req ''https://h.io/api/v4/projects/g%2Fp/pipelines/77'',
        post_req ''https://h.io/api/v4/projects/g%2Fp/pipelines/77/retry'']"
    using T6 [THEN conjunct2] B6 by (simp add: urls)

  \<comment> \<open>job 5 from a process whose environment names pipeline 77\<close>
  let ?c3 = "snd (request_json in_ci (pipeline_opts ''g%2Fp'' (Str ''77'')) ?c1)"
  have e4: "request_json in_ci (pipeline_opts ''g%2Fp'' (Str ''77'')) ?c1 = (Inr ?p77, ?c3)" by code_simp
  have mc: "(\<exists>v. CI_PIPELINE_ID in_ci = Some v \<and> v \<noteq> [] \<and> Str ''77'' = Str v \<and> ?c1 = ?c1)
            \<or> (\<not> truthy_str (CI_PIPELINE_ID in_ci)
                \<and> (\<exists>job pl. request_json in_ci (job_opts ''g%2Fp'' (Num 5)) ?c1 = (Inr job, ?c1)
                      \<and> get_prop job ''pipeline'' = Inr pl \<and> get_prop pl ''id'' = Inr (Str ''77'')))"
    using set_c by simp
  note HC = R [OF j5 pp_c refl in_ci_base]
  note TC = HC [THEN conjunct2, THEN conjunct2, rule_format, OF mc, THEN conjunct2, rule_format,
                OF conjI [OF e4 b5], THEN conjunct1, THEN mp, OF nr]
  have w3: "trace (snd (pipelineRerun in_ci Undefined (Num 5) fresh)) =
     trace ?c1
     @ [get_req ''https://h.io/api/v4/projects/g%2Fp/pipelines/77'',
        post_req ''https://h.io/api/v4/projects/g%2Fp/pipelines/77/retry'']"
    using TC [THEN conjunct2] by (simp add: urls)

  \<comment> \<open>job 5 on a running pipeline whose cancellation is refused\<close>
  let ?u2 = "snd (request_json uncancellable (job_opts ''g%2Fp'' (Num 5)) ?u1)"
  let ?u3 = "snd (request_json uncancellable (pipeline_opts ''g%2Fp'' (Num 9)) ?u2)"
  have u1: "request_json uncancellable (job_opts ''g%2Fp'' (Num 5)) ?u1 = (Inr ?job5, ?u2)" by code_simp
  have u4: "request_json uncancellable (pipeline_opts ''g%2Fp'' (Num 9)) ?u2 = (Inr ?p9, ?u3)" by code_simp
  have u6: "fst (request uncancellable (cancel_opts ''g%2Fp'' (Num 9)) ?u3) = Inl (Error ''Forbidden'')"
    by code_simp
  have mu: "(\<exists>v. CI_PIPELINE_ID uncancellable = Some v \<and> v \<noteq> [] \<and> Num 9 = Str v \<and> ?u2 = ?u1)
            \<or> (\<not> truthy_str (CI_PIPELINE_ID uncancellable)
                \<and> (\<exists>job pl. request_json uncancellable (job_opts ''g%2Fp'' (Num 5)) ?u1 = (Inr job, ?u2)
                      \<and> get_prop job ''pipeline'' = Inr pl \<and> get_prop pl ''id'' = Inr (Num 9)))"
    using unset_u u1 by auto
  note HU = R [OF j5 pp_u refl uncancellable_base]
  note BU = HU [THEN conjunct2, THEN conjunct1, rule_format, OF unset_u u1]
  note TU = HU [THEN conjunct2, THEN conjunct2, rule_format, OF mu, THEN conjunct2, rule_format,
                OF conjI [OF u4 a5], THEN conjunct2, THEN mp, OF refl, THEN conjunct1, rule_format, OF u6]
  have w4: "fst (pipelineRerun uncancellable Undefined (Num 5) fresh) = Inl (Error ''Forbidden'')
     \<and> trace (snd (pipelineRerun uncancellable Undefined (Num 5) fresh)) =
     trace ?u1
     @ [get_req ''https://h.io/api/v4/projects/g%2Fp/jobs/5'',
        get_req ''https://h.io/api/v4/projects/g%2Fp/pipelines/9'',
        post_req ''https://h.io/api/v4/projects/g%2Fp/pipelines/9/cancel'']"
    using TU BU by (simp add: urls)

  \<comment> \<open>job 8 is unknown to the remote\<close>
  have g1: "fst (request_json rerunning (job_opts ''g%2Fp'' (Num 8)) ?r1) = Inl (Error ''Not Found'')"
    by code_simp
  note H8 = R [OF j8 pp_r refl rerunning_base]
  note A8 = H8 [THEN conjunct1, rule_format, OF unset_r g1]
  have w5: "fst (pipelineRerun rerunning Undefined (Num 8) fresh) = Inl (Error ''Not Found'')
     \<and> trace (snd (pipelineRerun rerunning Undefined (Num 8) fresh)) =
     trace ?r1 @ [get_req ''https://h.io/api/v4/projects/g%2Fp/jobs/8'']"
    using A8 by (simp add: urls)

  \<comment> \<open>job 7 belongs to pipeline 11, which is unknown to the remote\<close>
  let ?job7 = "Obj [(''id'', Num 7), (''pipeline'', Obj [(''id'', Num 11)])]"
  let ?h2 = "snd (request_json rerunning (job_opts ''g%2Fp'' (Num 7)) ?r1)"
  have h1: "request_json rerunning (job_opts ''g%2Fp'' (Num 7)) ?r1 = (Inr ?job7, ?h2)" by code_simp
  have h4: "fst (request_json rerunning (pipeline_opts ''g%2Fp'' (Num 11)) ?h2) = Inl (Error ''Not Found'')"
    by code_simp
  have m7: "(\<exists>v. CI_PIPELINE_ID rerunning = Some v \<and> v \<noteq> [] \<and> Num 11 = Str v \<and> ?h2 = ?r1)
            \<or> (\<not> truthy_str (CI_PIPELINE_ID rerunning)
                \<and> (\<exists>job pl. request_json rerunning (job_opts ''g%2Fp'' (Num 7)) ?r1 = (Inr job, ?h2)
                      \<and> get_prop job ''pipeline'' = Inr pl \<and> get_prop pl ''id'' = Inr (Num 11)))"
    using unset_r h1 by auto
  note H7 = R [OF j7 pp_r refl rerunning_base]
  note B7 = H7 [THEN conjunct2, THEN conjunct1, rule_format, OF unset_r h1]
  note T7 = H7 [THEN conjunct2, THEN conjunct2, rule_format, OF m7, THEN conjunct1, rule_format, OF h4]
  have w6: "fst (pipelineRerun rerunning Undefined (Num 7) fresh) = Inl (Error ''Not Found'')
     \<and> trace (snd (pipelineRerun rerunning Undefined (Num 7) fresh)) =
     trace ?r1
     @ [get_req ''https://h.io/api/v4/projects/g%2Fp/jobs/7'',
        get_req ''https://h.io/api/v4/projects/g%2Fp/pipelines/11'']"
    using T7 B7 by (simp add: urls)

  from w1 w2 w3 w4 w5 w6 show ?thesis by simp
qed


section \<open>Starting a runner\<close>

lemma fetchesI:
  "(\<And>s. \<exists>evs. trace (snd (m s)) = trace s @ evs \<and> list_all is_fetch evs) \<Longrightarrow> fetches m"
  by (simp add: fetches_def)

lemma fetchesD:
  "fetches m \<Longrightarrow> \<exists>evs. trace (snd (m s)) = trace s @ evs \<and> list_all is_fetch evs"
  by (simp add: fetches_def)

lemma fetches_ret [simp]: "fetches (ret x)" and fetches_throw [simp]: "fetches (throw e)"
  and fetches_lift [simp]: "fetches (lift r)"
  by (simp_all add: fetches_def ret_def throw_def lift_def)

lemma fetches_bind:
  assumes "fetches m" and "\<And>x. fetches (f x)"
  shows "fetches (bind m f)"
proof (rule fetchesI)
  fix s
  obtain r s' where ms: "m s = (r, s')" by (cases "m s")
  from fetchesD [OF assms(1), of s] ms obtain evs
    where e1: "trace s' = trace s @ evs" "list_all is_fetch evs" by auto
  show "\<exists>evs. trace (snd (bind m f s)) = trace s @ evs \<and> list_all is_fetch evs"
  proof (cases r)
    case (Inl e)
    with ms e1 show ?thesis by (auto simp: bind_def)
  next
    case (Inr x)
    from fetchesD [OF assms(2), of x s'] obtain evs'
      where e2: "trace (snd (f x s')) = trace s' @ evs'" "list_all is_fetch evs'" by auto
    have "trace (snd (bind m f s)) = trace s @ (evs @ evs')"
      using ms Inr e1 e2 by (simp add: bind_def)
    moreover have "list_all is_fetch (evs @ evs')" using e1 e2 by simp
    ultimately show ?thesis by blast
  qed
qed

lemma fetches_request_url: "fetches (request_url E u opts)"
proof (rule fetchesI)
  fix s
  show "\<exists>evs. trace (snd (request_url E u opts s)) = trace s @ evs \<and> list_all is_fetch evs"
  proof (cases "\<exists>a. u = Some a \<and> a \<noteq> []")
    case True
    then obtain a where "u = Some a" "a \<noteq> []" by blast
    then have "trace (snd (request_url E u opts s)) = trace s @ [Fetch (fetch_args s a opts)]"
      by (simp add: request_url_state)
    then show ?thesis by (intro exI [of _ "[Fetch (fetch_args s a opts)]"]) simp
  next
    case False
    then have "trace (snd (request_url E u opts s)) = trace s @ []"
      by (cases u) (auto simp: request_url_def throw_def)
    then show ?thesis by (intro exI [of _ "[]"]) simp
  qed
qed

lemma fetches_detect: "fetches (detect E)"
proof (rule fetchesI)
  fix s
  show "\<exists>evs. trace (snd (detect E s)) = trace s @ evs \<and> list_all is_fetch evs"
  proof (cases "parseURL E (repo s)")
    case None
    then have "trace (snd (detect E s)) = trace s @ []" by (simp add: detect_def)
    then show ?thesis by (intro exI [of _ "[]"]) simp
  next
    case (Some u)
    have "list_all is_fetch (map (\<lambda>c. Fetch (probe_args s c)) (candidates (origin u) (segments (pathname u))))"
      by (simp add: list_all_iff)
    with detect_trace [OF Some] show ?thesis by blast
  qed
qed

lemma fetches_repoBase: "fetches (repoBase E)"
proof (rule fetchesI)
  fix s
  show "\<exists>evs. trace (snd (repoBase E s)) = trace s @ evs \<and> list_all is_fetch evs"
  proof (cases "truthy_str (detectedBase s)")
    case True
    then have "trace (snd (repoBase E s)) = trace s @ []"
      by (cases "detectedBase s") (simp_all add: repoBase_def)
    then show ?thesis by (intro exI [of _ "[]"]) simp
  next
    case False
    then show ?thesis using fetchesD [OF fetches_detect] by (simp add: repoBase_uncached)
  qed
qed

lemma fetches_request: "fetches (request E opts)"
  unfolding request_def request_target_def
  by (auto intro!: fetches_bind fetches_repoBase fetches_request_url split: option.splits)

lemma fetches_request_json: "fetches (request_json E opts)"
  unfolding request_json_def by (intro fetches_bind fetches_request fetches_ret)

lemma fetches_projectPath: "fetches (projectPath E)"
proof -
  have "fetches (\<lambda>s. ret (encodeURIComponent (substr1 (replace_first b (repo s)))) s)" for b
    by (rule fetchesI) (simp add: ret_def)
  then show ?thesis
    unfolding projectPath_def by (intro fetches_bind fetches_repoBase)
qed

lemma fetches_registerRunner: "fetches (registerRunner E tags nm)"
  unfolding registerRunner_def runnerToken_def
  by (intro fetches_bind fetches_projectPath fetches_request_json fetches_lift)

text \<open>With the binary present, the events of \<open>startRunner\<close>.\<close>

lemma startRunner_present:
  assumes "pathExists E (trace s) (resolve_path E (workdir opts) ''gitlab-runner'') = Inr True"
  shows "\<exists>evs. trace (snd (startRunner E opts s)) =
                 trace s @ PathExists (resolve_path E (workdir opts) ''gitlab-runner'') # evs
               \<and> (\<forall>u p. Download u p \<notin> set evs) \<and> (\<forall>p m. Chmod p m \<notin> set evs)"
proof -
  let ?bin = "resolve_path E (workdir opts) ''gitlab-runner''"
  let ?s1 = "s\<lparr>trace := trace s @ [PathExists ?bin]\<rparr>"
  have pe: "fse_pathExists E ?bin s = (Inr True, ?s1)"
    using assms by (simp add: fse_pathExists_def)
  define rest where "rest = (\<lambda>s. case parseURL E (repo s) of
                  None \<Rightarrow> throw (TypeError ''Invalid URL'') s
                | Some u \<Rightarrow>
                    bind (registerRunner E (labels opts) (name opts))
                      (\<lambda>runner. bind (lift (get_prop runner ''token''))
                         (\<lambda>token'. child_spawn E (command E opts ?bin u token'))) s)"
  have prep: "prepare E opts s = rest ?s1"
    by (simp add: prepare_def Let_def bind_def pe ret_def rest_def)
  have rest_tr: "\<exists>evs. trace (snd (rest t)) = trace t @ evs
                   \<and> (\<forall>u p. Download u p \<notin> set evs) \<and> (\<forall>p m. Chmod p m \<notin> set evs)" for t
  proof (cases "parseURL E (repo t)")
    case None
    then have "trace (snd (rest t)) = trace t @ []" by (simp add: rest_def throw_def)
    then show ?thesis by (metis empty_iff empty_set)
  next
    case (Some u)
    obtain r t1 where rr: "registerRunner E (labels opts) (name opts) t = (r, t1)"
      by (cases "registerRunner E (labels opts) (name opts) t")
    from fetchesD [OF fetches_registerRunner, of E "labels opts" "name opts" t] rr
    obtain evs where e: "trace t1 = trace t @ evs" "list_all is_fetch evs" by auto
    have nf: "(\<forall>u p. Download u p \<notin> set evs) \<and> (\<forall>p m. Chmod p m \<notin> set evs)"
      using e(2) by (auto simp: list_all_iff)
    show ?thesis
    proof (cases "\<exists>runner tk. r = Inr runner \<and> get_prop runner ''token'' = Inr tk")
      case True
      then obtain runner tk where ok: "r = Inr runner" "get_prop runner ''token'' = Inr tk" by blast
      have "trace (snd (rest t)) = trace t @ (evs @ [Spawn (command E opts ?bin u tk)])"
        using Some rr ok e by (simp add: rest_def bind_def lift_def child_spawn_def)
      moreover have "(\<forall>d q. Download d q \<notin> set (evs @ [Spawn (command E opts ?bin u tk)]))
                   \<and> (\<forall>q m. Chmod q m \<notin> set (evs @ [Spawn (command E opts ?bin u tk)]))"
        using nf by simp
      ultimately show ?thesis by blast
    next
      case False
      then have "snd (rest t) = t1"
        using Some rr by (cases r) (auto simp: rest_def bind_def lift_def split: sum.splits)
      with e nf show ?thesis by auto
    qed
  qed
  from rest_tr [of ?s1] obtain evs where e: "trace (snd (rest ?s1)) = trace ?s1 @ evs"
    and nf: "(\<forall>u p. Download u p \<notin> set evs) \<and> (\<forall>p m. Chmod p m \<notin> set evs)" by blast
  have "trace (snd (startRunner E opts s)) = trace (snd (prepare E opts s))"
    by (auto simp: startRunner_def try_catch_def bind_def lift_def throw_def
             split: prod.splits sum.splits)
  then have "trace (snd (startRunner E opts s)) = trace s @ PathExists ?bin # evs"
    using e by (simp add: prep)
  with nf show ?thesis by blast
qed

text \<open>A caught error object is wrapped.\<close>

lemma startRunner_wraps:
  assumes "fst (prepare E opts s) = Inl err" and "message err = Inr m"
  shows "fst (startRunner E opts s) =
           Inl (Error (''Failed preparing Gitlab runner: ''
                       @ to_string (if m = Str ''Forbidden'' then Str (''Forbidden'' @ forbidden_hint)
                                    else m)))"
  using assms
  by (cases "prepare E opts s") (simp add: startRunner_def try_catch_def bind_def lift_def throw_def)

lemma startRunner_forbidden:
  "fst (startRunner forbidding runner0 fresh) =
     Inl (Error (''Failed preparing Gitlab runner: Forbidden'' @ forbidden_hint))"
  by code_simp

text \<open>
  C9.  The first half of the claim holds (\<open>startRunner_present\<close>: with the binary present
  no download and no permission change is traced), and a caught error object is wrapped
  (\<open>startRunner_wraps\<close>).  But not every exception of the setup is wrapped.  With the
  binary present and a repository whose origin answers the version probe with a JSON
  object without \<open>version\<close>, while no other probe succeeds, \<open>repoBase\<close> throws
  \<open>possibleBases[0]\<close>, which is \<open>undefined\<close>; the \<open>catch\<close> block of \<open>startRunner\<close> reads
  \<open>err.message\<close> of it, and the caller receives that \<open>TypeError\<close> instead of an error
  naming the preparation of the runner.
\<close>

theorem startRunner_thrown_undefined:
  "pathExists versionless [] (resolve_path versionless (workdir runner0) ''gitlab-runner'') = Inr True
   \<and> startRunner versionless runner0 fresh =
       (Inl (TypeError (cannot_read ''undefined'' ''message'')),
        fresh\<lparr>trace := [PathExists ''/tmp/w/gitlab-runner'',
                          get_req ''https://h.io/api/v4/version'',
                          get_req ''https://h.io/g/api/v4/version'']\<rparr>)
   \<and> fst (prepare versionless runner0 fresh) = Inl ThrownUndefined"
  by code_simp


end
